theory Spec2Isabelle
  imports Complex_Main
begin

section \<open>Strings and numbers as the runtime renders them\<close>

text \<open>
  The server is an Express application (\<^verbatim>\<open>http-mcp-server.js\<close>) that registers two tools
  and keeps a table of transports by session identifier. Strings are character lists: a
  string of ASCII characters is that text, and any other string stands for the text that its
  bytes encode in UTF-8. Case conversion of an ASCII string maps its 26 letters and is
  defined here; for any other string it is the conversion of the runtime, which follows the
  Unicode tables and is taken from the environment (\<open>unicode_lower\<close>, \<open>unicode_upper\<close>).
  Numbers of the provider's payload (prices, points) are rationals; the two things the code
  does with them are the truthiness test (zero is falsy) and the conversion to text inside
  a template string, which is taken from the environment (\<open>num_str\<close>), as are the two
  date renderings (\<open>new Date().toLocaleString()\<close> and
  \<open>new Date(commence_time).toLocaleString()\<close>).
\<close>

definition digit_char :: "nat \<Rightarrow> char" where
  "digit_char d = ''0123456789'' ! d"

text \<open>Decimal rendering of a non-negative integer inside a template string.\<close>

fun show_nat :: "nat \<Rightarrow> string" where
  "show_nat n = (if n < 10 then [digit_char n] else show_nat (n div 10) @ [digit_char (n mod 10)])"

declare show_nat.simps [simp del]

definition lower_letters :: string where
  "lower_letters = ''abcdefghijklmnopqrstuvwxyz''"

definition upper_letters :: string where
  "upper_letters = ''ABCDEFGHIJKLMNOPQRSTUVWXYZ''"

definition upper_char :: "char \<Rightarrow> char" where
  "upper_char c = (case map_of (zip lower_letters upper_letters) c of Some u \<Rightarrow> u | None \<Rightarrow> c)"

definition lower_char :: "char \<Rightarrow> char" where
  "lower_char c = (case map_of (zip upper_letters lower_letters) c of Some l \<Rightarrow> l | None \<Rightarrow> c)"

record env =
  now :: string
  date_str :: "string \<Rightarrow> string"
  num_str :: "rat \<Rightarrow> string"
  unicode_lower :: "string \<Rightarrow> string"
  unicode_upper :: "string \<Rightarrow> string"

fun ascii :: "string \<Rightarrow> bool" where
  "ascii [] = True"
| "ascii (c # s) = ((of_char c :: nat) < 128 \<and> ascii s)"

text \<open>\<open>String.prototype.toUpperCase\<close> and \<open>String.prototype.toLowerCase\<close>\<close>

definition toUpperCase :: "env \<Rightarrow> string \<Rightarrow> string" where
  "toUpperCase e s = (if ascii s then map upper_char s else unicode_upper e s)"

definition toLowerCase :: "env \<Rightarrow> string \<Rightarrow> string" where
  "toLowerCase e s = (if ascii s then map lower_char s else unicode_lower e s)"

text \<open>\<open>key.replace(/_/g, ' ')\<close>\<close>

definition replace_underscores :: "string \<Rightarrow> string" where
  "replace_underscores s = map (\<lambda>c. if c = CHR ''_'' then CHR '' '' else c) s"

text \<open>\<open>Array.prototype.join\<close> on an array of strings.\<close>

fun join :: "string \<Rightarrow> string list \<Rightarrow> string" where
  "join sep [] = []"
| "join sep [x] = x"
| "join sep (x # y # ys) = x @ sep @ join sep (y # ys)"

text \<open>\<open>String.prototype.includes\<close>: does \<open>t\<close> occur in \<open>s\<close> as a contiguous run?\<close>

fun starts_with :: "string \<Rightarrow> string \<Rightarrow> bool" where
  "starts_with s [] = True"
| "starts_with [] (c # t) = False"
| "starts_with (d # s) (c # t) = (d = c \<and> starts_with s t)"

fun includes_str :: "string \<Rightarrow> string \<Rightarrow> bool" where
  "includes_str [] t = (t = [])"
| "includes_str (d # s) t = (starts_with (d # s) t \<or> includes_str s t)"

text \<open>A string is truthy when it is present and not empty.\<close>

definition truthy :: "string option \<Rightarrow> bool" where
  "truthy v = (case v of None \<Rightarrow> False | Some s \<Rightarrow> s \<noteq> [])"

section \<open>The provider's data\<close>

text \<open>
  Fields are optional where the code tests for their presence (\<open>game.bookmakers\<close>,
  \<open>outcome.description\<close>, \<open>outcome.point\<close>). A bookmaker's \<open>markets\<close> and a market's
  \<open>outcomes\<close> are arrays, as the provider sends them, and so is the payload of the list of
  events, which the code uses without a test. An event of that list and the odds of one
  event have the fields of a game.
\<close>

record outcome =
  name :: string
  description :: "string option"
  price :: rat
  point :: "rat option"

record market =
  key :: string
  outcomes :: "outcome list"

record bookmaker =
  bookmaker_key :: string
  title :: string
  markets :: "market list"

record game =
  event_id :: string
  home_team :: string
  away_team :: string
  commence_time :: string
  bookmakers :: "bookmaker list option"

text \<open>
  What \<open>await fetch(url)\<close> followed by \<open>await response.json()\<close> can do: the fetch
  rejects (a thrown error with a message), or it resolves with a status, a status text and
  a body whose parsing throws or yields data.
\<close>

datatype 'a body = BadJson string | Json 'a

datatype 'a fetched = Rejected string | Response nat string "'a body"

text \<open>\<open>response.ok\<close>\<close>

definition ok :: "nat \<Rightarrow> bool" where
  "ok status = (200 \<le> status \<and> status \<le> 299)"

definition apiKey :: string where
  "apiKey = ''e2589acbc9f5ed09664e15a3fd90682d''"

definition baseUrl :: string where
  "baseUrl = ''https://api.the-odds-api.com/v4''"

section \<open>The tool \<open>fetch_sports_odds\<close>\<close>

definition odds_url :: "string \<Rightarrow> string list \<Rightarrow> string \<Rightarrow> string" where
  "odds_url sport mkts regions =
     baseUrl @ ''/sports/'' @ sport @ ''/odds/?apiKey='' @ apiKey @ ''&regions='' @ regions
     @ ''&markets='' @ join '','' mkts @ ''&oddsFormat=decimal&dateFormat=iso''"

text \<open>The text one iteration of \<open>market.outcomes.forEach((outcome, i) => ...)\<close> appends.\<close>

definition odds_outcome :: "env \<Rightarrow> nat \<Rightarrow> outcome \<Rightarrow> string" where
  "odds_outcome e i x =
     (if i > 0 then '', '' else [])
     @ name x @ '' ('' @ num_str e (price x) @ '')''
     @ (case point x of None \<Rightarrow> [] | Some p \<Rightarrow> if p \<noteq> 0 then '' '' @ num_str e p else [])"

fun odds_outcomes :: "env \<Rightarrow> nat \<Rightarrow> outcome list \<Rightarrow> string" where
  "odds_outcomes e i [] = []"
| "odds_outcomes e i (x # xs) = odds_outcome e i x @ odds_outcomes e (Suc i) xs"

definition odds_market :: "env \<Rightarrow> market \<Rightarrow> string" where
  "odds_market e m = ''     '' @ key m @ '': '' @ odds_outcomes e 0 (outcomes m) @ ''\<newline>''"

definition odds_bookmaker :: "env \<Rightarrow> bookmaker \<Rightarrow> string" where
  "odds_bookmaker e b = ''   '' @ title b @ '':\<newline>'' @ concat (map (odds_market e) (markets b))"

definition odds_game :: "env \<Rightarrow> nat \<Rightarrow> game \<Rightarrow> string" where
  "odds_game e index g =
     show_nat (index + 1) @ ''. '' @ away_team g @ '' @ '' @ home_team g @ ''\<newline>''
     @ ''   Starts: '' @ date_str e (commence_time g) @ ''\<newline>''
     @ (case bookmakers g of
          None \<Rightarrow> []
        | Some bs \<Rightarrow> if length bs > 0 then concat (map (odds_bookmaker e) bs) else [])
     @ ''\<newline>''"

fun odds_games :: "env \<Rightarrow> nat \<Rightarrow> game list \<Rightarrow> string" where
  "odds_games e index [] = []"
| "odds_games e index (g # gs) = odds_game e index g @ odds_games e (Suc index) gs"

definition odds_header :: "env \<Rightarrow> string \<Rightarrow> string list \<Rightarrow> string \<Rightarrow> string" where
  "odds_header e sport mkts regions =
     ''Sports Odds Report - '' @ toUpperCase e sport @ ''\<newline>''
     @ ''Generated: '' @ now e @ ''\<newline>''
     @ ''Markets: '' @ join '', '' mkts @ ''\<newline>''
     @ ''Regions: '' @ regions @ ''\<newline>\<newline>''"

definition odds_report :: "env \<Rightarrow> string \<Rightarrow> string list \<Rightarrow> string \<Rightarrow> game list \<Rightarrow> string" where
  "odds_report e sport mkts regions data =
     odds_header e sport mkts regions
     @ (if length data = 0 then ''No games found for this sport.\<newline>''
        else ''Found '' @ show_nat (length data) @ '' games:\<newline>\<newline>'' @ odds_games e 0 data)"

text \<open>The payload of the sport-wide odds call: the code checks that it is an array.\<close>

datatype odds_payload = NotArray | Games "game list"

text \<open>
  The body of the \<open>try\<close> block: \<open>Inl\<close> is the message of a thrown error, \<open>Inr\<close> the text
  of the report.
\<close>

definition odds_try :: "env \<Rightarrow> string \<Rightarrow> string list \<Rightarrow> string \<Rightarrow> odds_payload fetched \<Rightarrow> string + string" where
  "odds_try e sport mkts regions r =
     (case r of
        Rejected msg \<Rightarrow> Inl msg
      | Response status statusText b \<Rightarrow>
          if \<not> ok status then Inl (''API call failed: '' @ show_nat status @ '' '' @ statusText)
          else (case b of
                  BadJson msg \<Rightarrow> Inl msg
                | Json NotArray \<Rightarrow> Inl ''Invalid API response: expected array of games''
                | Json (Games data) \<Rightarrow> Inr (odds_report e sport mkts regions data)))"

text \<open>
  The handler: the destructuring defaults of its parameters, then the \<open>try\<close> block, whose
  errors are rethrown with a prefix. \<open>Inl\<close> is the tool-level error, \<open>Inr\<close> the report.
\<close>

definition fetch_sports_odds ::
  "env \<Rightarrow> string \<Rightarrow> string list option \<Rightarrow> string option \<Rightarrow> odds_payload fetched \<Rightarrow> string + string" where
  "fetch_sports_odds e sport mkts_arg regions_arg r =
     (let mkts = (case mkts_arg of None \<Rightarrow> [''h2h''] | Some m \<Rightarrow> m);
          regions = (case regions_arg of None \<Rightarrow> ''us'' | Some x \<Rightarrow> x)
      in case odds_try e sport mkts regions r of
           Inl msg \<Rightarrow> Inl (''Failed to execute fetch_sports_odds: '' @ msg)
         | Inr text \<Rightarrow> Inr text)"

section \<open>The tool \<open>fetch_player_props\<close>\<close>

text \<open>The text one iteration of \<open>market.outcomes.forEach(outcome => ...)\<close> appends.\<close>

definition props_outcome :: "env \<Rightarrow> outcome \<Rightarrow> string" where
  "props_outcome e x =
     (let playerName = (if truthy (description x) then the (description x) else name x);
          betType = name x;
          pt = (case point x of None \<Rightarrow> [] | Some p \<Rightarrow> if p \<noteq> 0 then '' '' @ num_str e p else []);
          odds = num_str e (price x)
      in ''  '' @ playerName @ '': '' @ betType @ pt @ '' ('' @ odds @ '')\<newline>'')"

definition props_market :: "env \<Rightarrow> market \<Rightarrow> string" where
  "props_market e m =
     ''\<newline>'' @ toUpperCase e (replace_underscores (key m)) @ '':\<newline>''
     @ concat (map (props_outcome e) (outcomes m))"

text \<open>Lines 215 to 233: the bookmaker and market sections of one event.\<close>

definition props_sections :: "env \<Rightarrow> game \<Rightarrow> string" where
  "props_sections e propsData =
     (case bookmakers propsData of
        None \<Rightarrow> ''No bookmaker data available for this game\<newline>''
      | Some bs \<Rightarrow>
          if length bs > 0 then
            (case find (\<lambda>b. bookmaker_key b = ''draftkings'') bs of
               None \<Rightarrow> ''No DraftKings props available for this game\<newline>''
             | Some draftkings \<Rightarrow>
                 if length (markets draftkings) > 0
                 then concat (map (props_market e) (markets draftkings))
                 else ''No DraftKings props available for this game\<newline>'')
          else ''No bookmaker data available for this game\<newline>'')"

text \<open>Lines 142 to 144: the default markets, by sport, when \<open>markets\<close> is falsy.\<close>

definition resolve_markets :: "string \<Rightarrow> string list option \<Rightarrow> string list" where
  "resolve_markets sport mkts_arg =
     (case mkts_arg of
        None \<Rightarrow>
          if sport = ''basketball_wnba''
          then [''player_points'', ''player_rebounds'', ''player_assists'']
          else [''batter_home_runs'', ''pitcher_strikeouts'']
      | Some m \<Rightarrow> m)"

definition events_url :: "string \<Rightarrow> string" where
  "events_url sport = baseUrl @ ''/sports/'' @ sport @ ''/events?apiKey='' @ apiKey"

definition props_url :: "string \<Rightarrow> string list \<Rightarrow> game \<Rightarrow> string" where
  "props_url sport mkts event =
     baseUrl @ ''/sports/'' @ sport @ ''/events/'' @ event_id event @ ''/odds?apiKey='' @ apiKey
     @ ''&regions=us&markets='' @ join '','' mkts @ ''&bookmakers=draftkings''"

text \<open>Step 2, lines 166 to 173.\<close>

definition matches_team :: "env \<Rightarrow> string \<Rightarrow> game \<Rightarrow> bool" where
  "matches_team e team_filter event =
     (includes_str (toLowerCase e (home_team event)) (toLowerCase e team_filter)
      \<or> includes_str (toLowerCase e (away_team event)) (toLowerCase e team_filter))"

definition filter_events :: "env \<Rightarrow> string option \<Rightarrow> game list \<Rightarrow> game list" where
  "filter_events e team_filter events =
     (if truthy team_filter then filter (matches_team e (the team_filter)) events else events)"

definition props_header :: "env \<Rightarrow> string \<Rightarrow> string list \<Rightarrow> string option \<Rightarrow> string" where
  "props_header e sport mkts team_filter =
     ''Player Props Report - '' @ toUpperCase e sport @ ''\<newline>''
     @ ''Generated: '' @ now e @ ''\<newline>''
     @ ''Markets: '' @ join '', '' mkts @ ''\<newline>''
     @ (if truthy team_filter then ''Team Filter: '' @ the team_filter @ ''\<newline>'' else [])
     @ ''\<newline>''"

definition no_games_line :: "string option \<Rightarrow> string" where
  \<open>no_games_line team_filter =
     (if truthy team_filter
      then ''No games found for team "'' @ the team_filter @ ''" today.\<newline>''
      else ''No games found for this sport today.\<newline>'')\<close>

definition event_title :: "game \<Rightarrow> string" where
  "event_title event = ''--- '' @ away_team event @ '' @ '' @ home_team event @ '' ---\<newline>''"

text \<open>
  The text one iteration of the loop over \<open>gamesToProcess\<close> appends, given what the
  per-event fetch did: the \<open>continue\<close> branch of a response that is not ok, the
  \<open>catch\<close> branch of a thrown error, or the rendered sections.
\<close>

definition event_block :: "env \<Rightarrow> game \<Rightarrow> game fetched \<Rightarrow> string" where
  "event_block e event r =
     (case r of
        Rejected msg \<Rightarrow> event_title event @ ''Error: '' @ msg @ ''\<newline>\<newline>''
      | Response status statusText b \<Rightarrow>
          if \<not> ok status
          then event_title event @ ''Error: Unable to fetch props ('' @ show_nat status @ '')\<newline>\<newline>''
          else (case b of
                  BadJson msg \<Rightarrow> event_title event @ ''Error: '' @ msg @ ''\<newline>\<newline>''
                | Json propsData \<Rightarrow>
                    event_title event
                    @ ''Starts: '' @ date_str e (commence_time event) @ ''\<newline>''
                    @ props_sections e propsData
                    @ ''\<newline>''))"

text \<open>
  The loop. The state threaded through it is the report so far and the list of the URLs
  fetched so far. The network answers the \<open>n\<close>-th outbound call of the invocation, for a
  URL, with \<open>net n url\<close>; the call to the event list is call \<open>0\<close>.
\<close>

fun process_events ::
  "env \<Rightarrow> (nat \<Rightarrow> string \<Rightarrow> game fetched) \<Rightarrow> string \<Rightarrow> string list \<Rightarrow> game list
     \<Rightarrow> string \<times> string list \<Rightarrow> string \<times> string list" where
  "process_events e net sport mkts [] (result, calls) = (result, calls)"
| "process_events e net sport mkts (event # rest) (result, calls) =
     (let propsUrl = props_url sport mkts event;
          propsResponse = net (length calls) propsUrl
      in process_events e net sport mkts rest
           (result @ event_block e event propsResponse, calls @ [propsUrl]))"

text \<open>
  The handler. It returns the tool's result (\<open>Inl\<close> the message of the error it throws,
  \<open>Inr\<close> the text of the report) and the URLs it fetched, in order.
\<close>

definition fetch_player_props ::
  "env \<Rightarrow> string \<Rightarrow> string list option \<Rightarrow> string option \<Rightarrow> game list fetched
     \<Rightarrow> (nat \<Rightarrow> string \<Rightarrow> game fetched) \<Rightarrow> (string + string) \<times> string list" where
  "fetch_player_props e sport mkts_arg team_filter eventsResponse net =
     (let mkts = resolve_markets sport mkts_arg;
          calls = [events_url sport];
          failed = (\<lambda>msg. (Inl (''Failed to fetch player props: '' @ msg), calls))
      in case eventsResponse of
           Rejected msg \<Rightarrow> failed msg
         | Response status statusText b \<Rightarrow>
             if \<not> ok status then failed (''Events API call failed: '' @ show_nat status)
             else (case b of
                     BadJson msg \<Rightarrow> failed msg
                   | Json events \<Rightarrow>
                       (let filteredEvents = filter_events e team_filter events;
                            result = props_header e sport mkts team_filter
                        in if length filteredEvents = 0
                           then (Inr (result @ no_games_line team_filter), calls)
                           else
                             (let gamesToProcess = take 3 filteredEvents;
                                  result = result @ ''Processing '' @ show_nat (length gamesToProcess)
                                             @ '' games:\<newline>\<newline>'';
                                  (result, calls) =
                                     process_events e net sport mkts gamesToProcess (result, calls)
                              in (Inr result, calls)))))"

text \<open>
  The input schema of the tool (lines 135 to 139), as the protocol server applies it to the
  arguments of a call before it runs the handler: \<open>sport\<close> is one of two keys,
  \<open>markets\<close> is \<open>z.array(z.string()).optional().default([...])\<close>, which replaces an omitted
  value by the default, and \<open>team_filter\<close> is an optional string. \<open>None\<close> is a call that the
  schema rejects.
\<close>

definition props_schema ::
  "string \<Rightarrow> string list option \<Rightarrow> string option
     \<Rightarrow> (string \<times> string list option \<times> string option) option" where
  "props_schema sport mkts_arg team_filter =
     (if sport \<in> set [''baseball_mlb'', ''basketball_wnba'']
      then Some (sport,
                 Some (case mkts_arg of
                         None \<Rightarrow> [''batter_home_runs'', ''pitcher_strikeouts'']
                       | Some m \<Rightarrow> m),
                 team_filter)
      else None)"

text \<open>A call of the tool: the schema, then the handler on the parsed arguments.\<close>

definition call_fetch_player_props ::
  "env \<Rightarrow> string \<Rightarrow> string list option \<Rightarrow> string option \<Rightarrow> game list fetched
     \<Rightarrow> (nat \<Rightarrow> string \<Rightarrow> game fetched) \<Rightarrow> ((string + string) \<times> string list) option" where
  "call_fetch_player_props e sport mkts_arg team_filter eventsResponse net =
     (case props_schema sport mkts_arg team_filter of
        None \<Rightarrow> None
      | Some (sport', mkts', team_filter') \<Rightarrow>
          Some (fetch_player_props e sport' mkts' team_filter' eventsResponse net))"

section \<open>The session table and the handler of \<open>POST /mcp\<close>\<close>

text \<open>
  The table is the object literal \<open>const transports = {}\<close>. Its own properties, from
  session identifier to transport, are the map \<open>transports\<close>. A transport instance is
  identified by its number in the order of construction. For each transport the state also
  holds the identifier that it was constructed for (\<open>transport.sessionId\<close>, which is also
  the \<open>newSessionId\<close> that its \<open>onclose\<close> handler has captured) and whether it has been
  closed, that is, whether its \<open>onclose\<close> handler has run.
\<close>

record server =
  transports :: "string \<rightharpoonup> nat"
  prototype :: "nat option"
  constructed :: nat
  sessionId_of :: "nat \<rightharpoonup> string"
  closed :: "nat set"

definition initial :: server where
  "initial = \<lparr>transports = Map.empty, prototype = None, constructed = 0,
              sessionId_of = Map.empty, closed = {}\<rparr>"

definition live :: "server \<Rightarrow> nat \<Rightarrow> bool" where
  "live s t = (t < constructed s \<and> t \<notin> closed s)"

text \<open>
  An object literal inherits the members of \<open>Object.prototype\<close>. The expression
  \<open>transports[sessionId]\<close> finds the own property of that name, or else the inherited
  member of that name, which is a function (or, for \<open>__proto__\<close>, the prototype object): a
  truthy value that is not a transport and has no \<open>handleRequest\<close>. For any other name it
  is \<open>undefined\<close>.
\<close>

definition object_prototype_members :: "string list" where
  "object_prototype_members =
     [''constructor'', ''__defineGetter__'', ''__defineSetter__'', ''hasOwnProperty'',
      ''__lookupGetter__'', ''__lookupSetter__'', ''isPrototypeOf'', ''propertyIsEnumerable'',
      ''toString'', ''valueOf'', ''__proto__'', ''toLocaleString'']"

datatype slot = Absent | Inherited | Transport nat

definition lookup :: "server \<Rightarrow> string \<Rightarrow> slot" where
  "lookup s sessionId =
     (case transports s sessionId of
        Some t \<Rightarrow> Transport t
      | None \<Rightarrow> if sessionId \<in> set object_prototype_members then Inherited else Absent)"

text \<open>
  The assignment \<open>transports[newSessionId] = transport\<close> makes an own property, except
  for the name \<open>__proto__\<close>: that assignment runs the inherited setter, which makes the
  transport the prototype of the table and adds no property. The field \<open>prototype\<close>
  records it. From then on a lookup inherits the members of a transport object of the
  library, which the source does not determine: \<open>lookup\<close> describes the table while
  \<open>prototype\<close> is \<open>None\<close>, and the statements about requests below are made for such
  states.
\<close>

definition assign :: "server \<Rightarrow> string \<Rightarrow> nat \<Rightarrow> server" where
  "assign s newSessionId t =
     (if newSessionId = ''__proto__'' then s\<lparr>prototype := Some t\<rparr>
      else s\<lparr>transports := (transports s)(newSessionId \<mapsto> t)\<rparr>)"

text \<open>
  What the handler reads of a request: the header \<open>mcp-session-id\<close> and whether the body
  is an initialization message (\<open>isInitializeRequest(req.body)\<close>).
\<close>

record request =
  session_header :: "string option"
  is_initialize :: bool

text \<open>
  What the library and the runtime do in one request: the value of \<open>randomUUID()\<close>,
  whether \<open>server.connect\<close> and \<open>transport.handleRequest\<close> resolve or throw,
  \<open>res.headersSent\<close> at the time of the \<open>catch\<close>, and the message of the
  \<open>TypeError\<close> that the runtime throws when line 294 calls \<open>handleRequest\<close> on a value
  that has none.
\<close>

datatype settled = Fulfilled | Threw string

record sdk =
  randomUUID :: string
  connect :: settled
  handleRequest :: settled
  headersSent :: bool
  typeError :: string

text \<open>
  The reply: the one that the transport wrote, the handler's own envelope of status 500
  with the message of the error as its data, or the part that the transport had sent when
  it threw.
\<close>

datatype reply = FromTransport nat | InternalServerError string | Partial nat

text \<open>
  The result of the handler: the new state, the transport that the request was routed to
  (none when the value looked up is an inherited member), whether that transport was
  constructed by this request, whether \<open>handleRequest\<close> was called on it, and the reply.
\<close>

record post_result =
  state :: server
  transport :: "nat option"
  created :: bool
  dispatched :: bool
  response :: reply

text \<open>The call \<open>transport.handleRequest(req, res, req.body)\<close> and the \<open>catch\<close> around it.\<close>

definition handle :: "sdk \<Rightarrow> server \<Rightarrow> nat \<Rightarrow> bool \<Rightarrow> post_result" where
  "handle k s t fresh =
     \<lparr>state = s, transport = Some t, created = fresh, dispatched = True,
      response = (case handleRequest k of
                    Fulfilled \<Rightarrow> FromTransport t
                  | Threw msg \<Rightarrow> if headersSent k then Partial t else InternalServerError msg)\<rparr>"

definition mcpPostHandler :: "server \<Rightarrow> request \<Rightarrow> sdk \<Rightarrow> post_result" where
  "mcpPostHandler s req k =
     (let sessionId = session_header req;
          found = (if truthy sessionId then lookup s (the sessionId) else Absent)
      in if found = Absent \<or> is_initialize req then
           (let newSessionId = (if truthy sessionId then the sessionId else randomUUID k);
                t = constructed s;
                s' = (assign s newSessionId t)
                       \<lparr>constructed := Suc t,
                        sessionId_of := (sessionId_of s)(t \<mapsto> newSessionId)\<rparr>
            in case connect k of
                 Threw msg \<Rightarrow>
                   \<lparr>state = s', transport = Some t, created = True, dispatched = False,
                    response = InternalServerError msg\<rparr>
               | Fulfilled \<Rightarrow> handle k s' t True)
         else (case found of
                 Transport t \<Rightarrow> handle k s t False
               | _ \<Rightarrow>
                   \<lparr>state = s, transport = None, created = False, dispatched = False,
                    response = InternalServerError (typeError k)\<rparr>))"

text \<open>The \<open>onclose\<close> handler of transport \<open>t\<close>: \<open>delete transports[newSessionId]\<close>.\<close>

definition onclose :: "server \<Rightarrow> nat \<Rightarrow> server" where
  "onclose s t =
     (case sessionId_of s t of
        None \<Rightarrow> s
      | Some newSessionId \<Rightarrow>
          s\<lparr>transports := (transports s)(newSessionId := None), closed := insert t (closed s)\<rparr>)"

text \<open>The states of the table: what requests and closures make of the initial one.\<close>

datatype event = Post request sdk | Close nat

fun step :: "server \<Rightarrow> event \<Rightarrow> server" where
  "step s (Post req k) = state (mcpPostHandler s req k)"
| "step s (Close t) = onclose s t"

definition run :: "event list \<Rightarrow> server" where
  "run evs = foldl step initial evs"

section \<open>Startup\<close>

text \<open>
  Lines 10, 11 and 336 to 346. The process environment is a map from variable names to
  strings. The port is \<open>process.env.PORT || 10000\<close>; the application then listens, which
  succeeds or emits an error event that is logged. Nothing else is read from the
  environment; the key of the provider is the string literal \<open>apiKey\<close> above.
\<close>

definition listen_port :: "(string \<rightharpoonup> string) \<Rightarrow> string + nat" where
  "listen_port penv = (if truthy (penv ''PORT'') then Inl (the (penv ''PORT'')) else Inr 10000)"

datatype started = Listening "string + nat" server | ListenError

definition startup :: "(string \<rightharpoonup> string) \<Rightarrow> bool \<Rightarrow> started" where
  "startup penv bound = (if bound then Listening (listen_port penv) initial else ListenError)"

section \<open>Notions of the specification\<close>

text \<open>
  The calls of an invocation after the first one, which fetches the list of events: the
  per-event odds calls.
\<close>

definition per_event_calls :: "string list \<Rightarrow> string list" where
  "per_event_calls calls = drop 1 calls"

text \<open>A string occurs in another one as a contiguous run.\<close>

definition occurs :: "string \<Rightarrow> string \<Rightarrow> bool" where
  "occurs t s = (\<exists>pre post. s = pre @ t @ post)"

text \<open>
  The specification's notion of a filter that appears case-insensitively as a substring of a
  name, for ASCII text: some contiguous run of the name equals the filter letter by
  letter, where two characters are the same letter when they are equal or one is the
  capital of the other. It is stated with the pairs of letters, not with the conversion
  that the code uses.
\<close>

definition same_letter :: "char \<Rightarrow> char \<Rightarrow> bool" where
  "same_letter c d =
     (c = d \<or> (c, d) \<in> set (zip upper_letters lower_letters)
            \<or> (d, c) \<in> set (zip upper_letters lower_letters))"

definition appears_ci :: "string \<Rightarrow> string \<Rightarrow> bool" where
  "appears_ci t s = (\<exists>pre u post. s = pre @ u @ post \<and> list_all2 same_letter u t)"

section \<open>Inputs used in the examples\<close>

text \<open>
  Greek text, in UTF-8: the name \<open>aris\<close> is the four capitals alpha, rho, eta, sigma, and
  \<open>sigma\<close> is the capital sigma alone. The runtime lowers a capital sigma at the end of
  a word to the final form of the small sigma and a capital sigma that stands alone to the
  other form (the rule \<open>Final_Sigma\<close> of the Unicode special casing, which
  \<open>toLowerCase\<close> applies).
\<close>

definition aris :: string where
  "aris = [CHR 0xCE, CHR 0x91, CHR 0xCE, CHR 0xA1, CHR 0xCE, CHR 0x97, CHR 0xCE, CHR 0xA3]"

definition aris_lower :: string where
  "aris_lower = [CHR 0xCE, CHR 0xB1, CHR 0xCF, CHR 0x81, CHR 0xCE, CHR 0xB7, CHR 0xCF, CHR 0x82]"

definition sigma :: string where
  "sigma = [CHR 0xCE, CHR 0xA3]"

definition sigma_lower :: string where
  "sigma_lower = [CHR 0xCF, CHR 0x83]"

definition example_lower :: "string \<Rightarrow> string" where
  "example_lower s = (if s = aris then aris_lower else if s = sigma then sigma_lower else s)"

definition example_env :: env where
  "example_env =
     \<lparr>now = ''11/3/2026, 9:00:00 AM'', date_str = (\<lambda>t. t),
      num_str = (\<lambda>q. if q = 0 then ''0'' else if q = 2 then ''2''
                     else if q = 1 / 2 then ''0.5'' else ''1.91''),
      unicode_lower = example_lower, unicode_upper = (\<lambda>s. s)\<rparr>"

definition example_greek :: game where
  "example_greek =
     \<lparr>event_id = ''e9'', home_team = aris, away_team = ''PAOK'',
      commence_time = ''2026-11-08T17:00:00Z'', bookmakers = None\<rparr>"

definition example_events :: "game list" where
  "example_events =
     [\<lparr>event_id = ''e1'', home_team = ''New York Yankees'', away_team = ''Boston Red Sox'',
       commence_time = ''2026-11-03T23:05:00Z'', bookmakers = None\<rparr>,
      \<lparr>event_id = ''e2'', home_team = ''Los Angeles Dodgers'',
       away_team = ''San Francisco Giants'',
       commence_time = ''2026-11-04T02:10:00Z'', bookmakers = None\<rparr>,
      \<lparr>event_id = ''e3'', home_team = ''Houston Astros'', away_team = ''Texas Rangers'',
       commence_time = ''2026-11-04T00:10:00Z'', bookmakers = None\<rparr>,
      \<lparr>event_id = ''e4'', home_team = ''Toronto Blue Jays'', away_team = ''New York Mets'',
       commence_time = ''2026-11-04T00:07:00Z'', bookmakers = None\<rparr>]"

definition example_props :: game where
  "example_props =
     \<lparr>event_id = ''e4'', home_team = ''Toronto Blue Jays'', away_team = ''New York Mets'',
      commence_time = ''2026-11-04T00:07:00Z'',
      bookmakers = Some [\<lparr>bookmaker_key = ''draftkings'', title = ''DraftKings'',
        markets = [\<lparr>key = ''batter_home_runs'',
                    outcomes = [\<lparr>name = ''Over'', description = Some ''Bo Bichette'',
                                 price = 2, point = Some (1 / 2)\<rparr>]\<rparr>]\<rparr>]\<rparr>"

text \<open>A network whose first per-event call fails with status 404.\<close>

definition example_net :: "nat \<Rightarrow> string \<Rightarrow> game fetched" where
  "example_net n url =
     (if n = 1 then Response 404 ''Not Found'' (BadJson ''Unexpected end of JSON input'')
      else Response 200 ''OK'' (Json example_props))"

definition example_sdk :: sdk where
  "example_sdk = \<lparr>randomUUID = ''5f0c1e2a-0000-4000-8000-000000000001'', connect = Fulfilled,
                   handleRequest = Fulfilled, headersSent = False,
                   typeError = ''transport.handleRequest is not a function''\<rparr>"

definition example_init :: request where
  "example_init = \<lparr>session_header = Some ''abc'', is_initialize = True\<rparr>"

definition example_call :: request where
  "example_call = \<lparr>session_header = Some ''abc'', is_initialize = False\<rparr>"

definition example_inherited :: request where
  "example_inherited = \<lparr>session_header = Some ''constructor'', is_initialize = False\<rparr>"

section \<open>Rendering of outcomes\<close>

lemmas str_defs = toUpperCase_def upper_char_def lower_letters_def upper_letters_def
  toLowerCase_def lower_char_def replace_underscores_def digit_char_def

text \<open>
  C10. An outcome whose point is the number 0: both renderers leave the point out of the
  line, which is then the line of the same outcome with no point at all.
\<close>

theorem zero_point_omitted:
  assumes "point x = Some 0"
  shows "odds_outcome e i x
           = (if i > 0 then '', '' else []) @ name x @ '' ('' @ num_str e (price x) @ '')''
       \<and> odds_outcome e i x = odds_outcome e i (x\<lparr>point := None\<rparr>)
       \<and> props_outcome e x
           = ''  '' @ (if truthy (description x) then the (description x) else name x)
             @ '': '' @ name x @ '' ('' @ num_str e (price x) @ '')\<newline>''
       \<and> props_outcome e x = props_outcome e (x\<lparr>point := None\<rparr>)"
  using assms by (simp add: odds_outcome_def props_outcome_def)

theorem zero_point_omitted_witness:
  "odds_outcome example_env 1
     \<lparr>name = ''Over'', description = Some ''A. Judge'', price = 2, point = Some 0\<rparr>
     = '', Over (2)''
   \<and> props_outcome example_env
     \<lparr>name = ''Over'', description = Some ''A. Judge'', price = 2, point = Some 0\<rparr>
     = ''  A. Judge: Over (2)\<newline>''"
  using zero_point_omitted
    [of "\<lparr>name = ''Over'', description = Some ''A. Judge'', price = 2, point = Some 0\<rparr>"
        example_env 1]
  by (simp add: example_env_def truthy_def)

section \<open>Default markets of the player props tool\<close>

text \<open>The handler alone, given no markets, picks them by sport.\<close>

lemma handler_default_markets_by_sport:
  "resolve_markets ''basketball_wnba'' None
     = [''player_points'', ''player_rebounds'', ''player_assists'']"
  "resolve_markets ''baseball_mlb'' None = [''batter_home_runs'', ''pitcher_strikeouts'']"
  by (simp_all add: resolve_markets_def)

text \<open>
  C3. A call for \<open>basketball_wnba\<close> that omits \<open>markets\<close>: the schema has filled in its
  own default before the handler runs, so the handler's test \<open>!markets\<close> is false and the
  markets used are \<open>batter_home_runs\<close> and \<open>pitcher_strikeouts\<close>, in the report and in
  every URL.
\<close>

theorem wnba_call_without_markets:
  "props_schema ''basketball_wnba'' None tf
     = Some (''basketball_wnba'', Some [''batter_home_runs'', ''pitcher_strikeouts''], tf)
   \<and> call_fetch_player_props e ''basketball_wnba'' None tf r net
     = Some (fetch_player_props e ''basketball_wnba''
               (Some [''batter_home_runs'', ''pitcher_strikeouts'']) tf r net)
   \<and> call_fetch_player_props e ''basketball_wnba'' None None (Response 200 ''OK'' (Json [])) net
     = Some (Inr (''Player Props Report - BASKETBALL_WNBA\<newline>''
                  @ ''Generated: '' @ now e @ ''\<newline>''
                  @ ''Markets: batter_home_runs, pitcher_strikeouts\<newline>''
                  @ ''\<newline>''
                  @ ''No games found for this sport today.\<newline>''),
             [events_url ''basketball_wnba''])"
  by (simp add: call_fetch_player_props_def props_schema_def fetch_player_props_def
        resolve_markets_def ok_def filter_events_def truthy_def props_header_def
        no_games_line_def str_defs)

section \<open>Sections without data\<close>

text \<open>The props tool writes a line for an event that has no bookmaker.\<close>

lemma props_event_without_bookmakers:
  "bookmakers g = Some [] \<or> bookmakers g = None \<Longrightarrow>
   props_sections e g = ''No bookmaker data available for this game\<newline>''"
  by (auto simp add: props_sections_def)

text \<open>The odds tool writes nothing between the start time and the blank line.\<close>

lemma odds_game_without_bookmakers_block:
  "bookmakers g = Some [] \<or> bookmakers g = None \<Longrightarrow>
   odds_game e i g
     = show_nat (i + 1) @ ''. '' @ away_team g @ '' @ '' @ home_team g @ ''\<newline>''
       @ ''   Starts: '' @ date_str e (commence_time g) @ ''\<newline>'' @ ''\<newline>''"
  by (auto simp add: odds_game_def)

text \<open>
  C4. The odds tool on one game whose list of bookmakers is empty: the report is the
  header, the count, the title of the game, its start time and a blank line. It holds no
  line saying that bookmaker data is missing.
\<close>

theorem odds_game_without_bookmakers:
  "fetch_sports_odds example_env ''baseball_mlb'' None None
     (Response 200 ''OK'' (Json (Games
        [\<lparr>event_id = ''e1'', home_team = ''Yankees'', away_team = ''Red Sox'',
          commence_time = ''2026-11-03T23:05:00Z'', bookmakers = Some []\<rparr>])))
   = Inr (''Sports Odds Report - BASEBALL_MLB\<newline>''
          @ ''Generated: 11/3/2026, 9:00:00 AM\<newline>''
          @ ''Markets: h2h\<newline>''
          @ ''Regions: us\<newline>\<newline>''
          @ ''Found 1 games:\<newline>\<newline>''
          @ ''1. Red Sox @ Yankees\<newline>''
          @ ''   Starts: 2026-11-03T23:05:00Z\<newline>''
          @ ''\<newline>'')"
  by (simp add: fetch_sports_odds_def odds_try_def ok_def odds_report_def odds_header_def
        odds_game_def example_env_def show_nat.simps str_defs)

section \<open>The props pipeline\<close>

lemma process_events_eq:
  "process_events e net sport mkts es (result, calls)
     = (result @ concat (map (\<lambda>i. event_block e (es ! i) (net (length calls + i) (props_url sport mkts (es ! i)))) [0..<length es]),
        calls @ map (props_url sport mkts) es)"
proof (induction es arbitrary: result calls)
  case Nil
  then show ?case by simp
next
  case (Cons ev rest)
  show ?case
    by (simp add: Cons.IH Let_def map_upt_Suc del: upt_Suc)
qed

lemma fetch_player_props_ok:
  assumes "ok status"
  shows "fetch_player_props e sport mkts_arg tf (Response status statusText (Json events)) net =
     (if filter_events e tf events = []
      then (Inr (props_header e sport (resolve_markets sport mkts_arg) tf @ no_games_line tf),
            [events_url sport])
      else (Inr (props_header e sport (resolve_markets sport mkts_arg) tf
                 @ ''Processing '' @ show_nat (length (take 3 (filter_events e tf events)))
                 @ '' games:\<newline>\<newline>''
                 @ concat (map (\<lambda>i. event_block e (take 3 (filter_events e tf events) ! i)
                                   (net (Suc i) (props_url sport (resolve_markets sport mkts_arg)
                                                  (take 3 (filter_events e tf events) ! i))))
                             [0..<length (take 3 (filter_events e tf events))])),
            events_url sport
              # map (props_url sport (resolve_markets sport mkts_arg))
                    (take 3 (filter_events e tf events))))"
  using assms by (simp add: fetch_player_props_def Let_def process_events_eq)

lemma fetch_player_props_failed:
  "\<not> ok status \<Longrightarrow>
   fetch_player_props e sport mkts_arg tf (Response status statusText b) net
     = (Inl (''Failed to fetch player props: Events API call failed: '' @ show_nat status),
        [events_url sport])"
  "fetch_player_props e sport mkts_arg tf (Rejected msg) net
     = (Inl (''Failed to fetch player props: '' @ msg), [events_url sport])"
  "ok status \<Longrightarrow>
   fetch_player_props e sport mkts_arg tf (Response status statusText (BadJson msg)) net
     = (Inl (''Failed to fetch player props: '' @ msg), [events_url sport])"
  by (simp_all add: fetch_player_props_def Let_def)

section \<open>The team filter\<close>

lemma starts_with_iff: "starts_with s t \<longleftrightarrow> (\<exists>post. s = t @ post)"
  by (induction s t rule: starts_with.induct) auto

lemma includes_str_iff: "includes_str s t \<longleftrightarrow> (\<exists>pre post. s = pre @ t @ post)"
proof (induction s)
  case Nil
  then show ?case by auto
next
  case (Cons d s)
  show ?case
  proof
    assume "includes_str (d # s) t"
    then consider "starts_with (d # s) t" | "includes_str s t" by auto
    then show "\<exists>pre post. d # s = pre @ t @ post"
    proof cases
      case 1
      then obtain post where "d # s = t @ post" using starts_with_iff by blast
      then have "d # s = [] @ t @ post" by simp
      then show ?thesis by blast
    next
      case 2
      then obtain pre post where "s = pre @ t @ post" using Cons.IH by blast
      then have "d # s = (d # pre) @ t @ post" by simp
      then show ?thesis by blast
    qed
  next
    assume "\<exists>pre post. d # s = pre @ t @ post"
    then obtain pre post where eq: "d # s = pre @ t @ post" by blast
    show "includes_str (d # s) t"
    proof (cases pre)
      case Nil
      then have "starts_with (d # s) t" using eq starts_with_iff by auto
      then show ?thesis by simp
    next
      case (Cons p pre')
      then have "s = pre' @ t @ post" using eq by simp
      then have "includes_str s t" using Cons.IH by blast
      then show ?thesis by simp
    qed
  qed
qed

lemma map_eq_appendD:
  assumes "map f s = a @ b"
  shows "\<exists>s1 s2. s = s1 @ s2 \<and> map f s1 = a \<and> map f s2 = b"
proof -
  have "map f (take (length a) s) = a"
    using assms by (metis append_eq_conv_conj take_map)
  moreover have "map f (drop (length a) s) = b"
    using assms by (metis append_eq_conv_conj drop_map)
  moreover have "s = take (length a) s @ drop (length a) s" by simp
  ultimately show ?thesis by blast
qed

lemma includes_str_occurs: "includes_str s t \<longleftrightarrow> occurs t s"
  by (simp add: includes_str_iff occurs_def)

lemma includes_str_empty: "includes_str s []"
  by (cases s) simp_all

text \<open>The conversion of an ASCII string, letter by letter, against the pairs of letters.\<close>

lemma lower_char_pair:
  assumes "(c, l) \<in> set (zip upper_letters lower_letters)"
  shows "lower_char c = l"
proof -
  have "distinct (map fst (zip upper_letters lower_letters))"
    by (simp add: upper_letters_def lower_letters_def)
  from this assms have "map_of (zip upper_letters lower_letters) c = Some l"
    by (rule map_of_is_SomeI)
  then show ?thesis by (simp add: lower_char_def)
qed

lemma upper_letters_keys: "map fst (zip upper_letters lower_letters) = upper_letters"
proof -
  have "length upper_letters = length lower_letters"
    by (simp add: upper_letters_def lower_letters_def)
  then show ?thesis by simp
qed

lemma lower_char_other:
  assumes "c \<notin> set upper_letters"
  shows "lower_char c = c"
proof -
  from assms have "c \<notin> fst ` set (zip upper_letters lower_letters)"
    by (metis upper_letters_keys set_map)
  then have "map_of (zip upper_letters lower_letters) c = None"
    by (simp add: map_of_eq_None_iff)
  then show ?thesis by (simp add: lower_char_def)
qed

lemma capital_has_small:
  assumes "c \<in> set upper_letters"
  obtains l where "(c, l) \<in> set (zip upper_letters lower_letters)"
proof -
  from assms have "c \<in> fst ` set (zip upper_letters lower_letters)"
    by (metis upper_letters_keys set_map)
  then show ?thesis using that by force
qed

lemma small_is_no_capital:
  assumes "(c, l) \<in> set (zip upper_letters lower_letters)"
  shows "l \<notin> set upper_letters"
proof -
  from assms have "l \<in> set lower_letters" by (rule set_zip_rightD)
  moreover have "set lower_letters \<inter> set upper_letters = {}"
    by (simp add: upper_letters_def lower_letters_def)
  ultimately show ?thesis by blast
qed

lemma one_capital_per_small:
  assumes "(c, l) \<in> set (zip upper_letters lower_letters)"
      and "(d, l) \<in> set (zip upper_letters lower_letters)"
  shows "c = d"
proof -
  have "distinct (map snd (zip upper_letters lower_letters))"
    by (simp add: upper_letters_def lower_letters_def)
  then have "inj_on snd (set (zip upper_letters lower_letters))"
    by (simp add: distinct_map)
  from inj_onD [OF this _ assms] show ?thesis by simp
qed

lemma lower_char_eq_iff: "lower_char c = lower_char d \<longleftrightarrow> same_letter c d"
proof
  assume eq: "lower_char c = lower_char d"
  show "same_letter c d"
  proof (cases "c \<in> set upper_letters")
    case True
    then obtain l where cl: "(c, l) \<in> set (zip upper_letters lower_letters)"
      by (rule capital_has_small)
    show ?thesis
    proof (cases "d \<in> set upper_letters")
      case True
      then obtain m where dm: "(d, m) \<in> set (zip upper_letters lower_letters)"
        by (rule capital_has_small)
      from eq cl dm have "l = m" by (simp add: lower_char_pair)
      with cl dm have "c = d" using one_capital_per_small by blast
      then show ?thesis by (simp add: same_letter_def)
    next
      case False
      with eq cl have "d = l" by (simp add: lower_char_pair lower_char_other)
      with cl show ?thesis by (simp add: same_letter_def)
    qed
  next
    case False
    show ?thesis
    proof (cases "d \<in> set upper_letters")
      case True
      then obtain m where dm: "(d, m) \<in> set (zip upper_letters lower_letters)"
        by (rule capital_has_small)
      with eq False have "c = m" by (simp add: lower_char_pair lower_char_other)
      with dm show ?thesis by (simp add: same_letter_def)
    next
      case d: False
      with eq False have "c = d" by (simp add: lower_char_other)
      then show ?thesis by (simp add: same_letter_def)
    qed
  qed
next
  assume "same_letter c d"
  then consider "c = d" | "(c, d) \<in> set (zip upper_letters lower_letters)"
    | "(d, c) \<in> set (zip upper_letters lower_letters)"
    by (auto simp add: same_letter_def)
  then show "lower_char c = lower_char d"
  proof cases
    case 1
    then show ?thesis by simp
  next
    case 2
    then show ?thesis using small_is_no_capital [OF 2]
      by (simp add: lower_char_pair lower_char_other)
  next
    case 3
    then show ?thesis using small_is_no_capital [OF 3]
      by (simp add: lower_char_pair lower_char_other)
  qed
qed

lemma map_lower_eq_iff: "map lower_char u = map lower_char t \<longleftrightarrow> list_all2 same_letter u t"
proof (induction u arbitrary: t)
  case Nil
  then show ?case by auto
next
  case (Cons c u)
  then show ?case by (cases t) (simp_all add: lower_char_eq_iff)
qed

lemma includes_lower_ascii:
  assumes "ascii s" "ascii t"
  shows "includes_str (toLowerCase e s) (toLowerCase e t) \<longleftrightarrow> appears_ci t s"
proof -
  have "(\<exists>pre post. map lower_char s = pre @ map lower_char t @ post)
        \<longleftrightarrow> (\<exists>pre u post. s = pre @ u @ post \<and> map lower_char u = map lower_char t)"
  proof
    assume "\<exists>pre post. map lower_char s = pre @ map lower_char t @ post"
    then obtain pre post where "map lower_char s = pre @ map lower_char t @ post" by blast
    then obtain a r where 1: "s = a @ r" "map lower_char r = map lower_char t @ post"
      using map_eq_appendD by blast
    then obtain u c where 2: "r = u @ c" "map lower_char u = map lower_char t"
      using map_eq_appendD by blast
    from 1 2 have "s = a @ u @ c" by simp
    with 2 show "\<exists>pre u post. s = pre @ u @ post \<and> map lower_char u = map lower_char t"
      by blast
  next
    assume "\<exists>pre u post. s = pre @ u @ post \<and> map lower_char u = map lower_char t"
    then obtain pre u post where "s = pre @ u @ post" "map lower_char u = map lower_char t"
      by blast
    then have "map lower_char s = map lower_char pre @ map lower_char t @ map lower_char post"
      by simp
    then show "\<exists>pre post. map lower_char s = pre @ map lower_char t @ post" by blast
  qed
  with assms show ?thesis
    by (simp add: includes_str_iff toLowerCase_def appears_ci_def map_lower_eq_iff)
qed

lemma filter_events_eq: "filter_events e (Some f) events = filter (matches_team e f) events"
proof (cases "f = []")
  case True
  then have "matches_team e f ev" for ev
    by (simp add: matches_team_def toLowerCase_def includes_str_empty)
  with True show ?thesis by (simp add: filter_events_def truthy_def)
next
  case False
  then show ?thesis by (simp add: filter_events_def truthy_def)
qed

text \<open>
  C6, as stated, fails: the name of the home team ends with the capital sigma, which is the
  filter, so the filter appears in the name as it is; the runtime lowers the two sigmas to
  different letters, the event is not retained and the tool finds no games.
\<close>

theorem final_sigma_filter_not_retained:
  "home_team example_greek
     = [CHR 0xCE, CHR 0x91, CHR 0xCE, CHR 0xA1, CHR 0xCE, CHR 0x97] @ sigma
   \<and> toLowerCase example_env (home_team example_greek) = aris_lower
   \<and> toLowerCase example_env sigma = sigma_lower
   \<and> \<not> matches_team example_env sigma example_greek
   \<and> filter_events example_env (Some sigma) [example_greek] = []"
  by (simp add: example_greek_def aris_def sigma_def aris_lower_def sigma_lower_def
        toLowerCase_def example_env_def example_lower_def matches_team_def filter_events_def
        truthy_def lower_char_def upper_letters_def lower_letters_def)

text \<open>
  C6, amended. With a team filter, the events retained are those for which the lowered
  filter occurs as a contiguous run in the lowered name of the home team or of the away
  team, where lowering is the conversion of the runtime. For a filter and names of ASCII
  characters that is the case exactly when the filter appears case-insensitively as a
  substring of one of the two names. When no event is retained (the list of events was
  fetched), the tool returns the header and the line that no games were found, having
  fetched nothing but the list of events.
\<close>

theorem team_filter_lowered_substring:
  "filter_events e (Some f) events = filter (matches_team e f) events
   \<and> (matches_team e f ev \<longleftrightarrow>
        occurs (toLowerCase e f) (toLowerCase e (home_team ev))
        \<or> occurs (toLowerCase e f) (toLowerCase e (away_team ev)))
   \<and> (ascii f \<and> ascii (home_team ev) \<and> ascii (away_team ev) \<longrightarrow>
        (matches_team e f ev \<longleftrightarrow> appears_ci f (home_team ev) \<or> appears_ci f (away_team ev)))
   \<and> (ok status \<and> filter_events e tf events = [] \<longrightarrow>
        fetch_player_props e sport mkts_arg tf (Response status statusText (Json events)) net
          = (Inr (props_header e sport (resolve_markets sport mkts_arg) tf @ no_games_line tf),
             [events_url sport]))"
proof (intro conjI impI)
  show "filter_events e (Some f) events = filter (matches_team e f) events"
    by (rule filter_events_eq)
next
  show "matches_team e f ev \<longleftrightarrow>
        occurs (toLowerCase e f) (toLowerCase e (home_team ev))
        \<or> occurs (toLowerCase e f) (toLowerCase e (away_team ev))"
    by (simp add: matches_team_def includes_str_occurs)
next
  assume "ascii f \<and> ascii (home_team ev) \<and> ascii (away_team ev)"
  then show "matches_team e f ev \<longleftrightarrow> appears_ci f (home_team ev) \<or> appears_ci f (away_team ev)"
    by (simp add: matches_team_def includes_lower_ascii)
next
  assume "ok status \<and> filter_events e tf events = []"
  then show "fetch_player_props e sport mkts_arg tf (Response status statusText (Json events)) net
          = (Inr (props_header e sport (resolve_markets sport mkts_arg) tf @ no_games_line tf),
             [events_url sport])"
    by (simp add: fetch_player_props_ok)
qed

theorem team_filter_lowered_substring_witness:
  "ascii ''new YORK'' \<and> ascii (home_team (example_events ! 0))
   \<and> ascii (away_team (example_events ! 0)) \<and> ok 200
   \<and> filter_events example_env (Some ''new YORK'') example_events
       = [example_events ! 0, example_events ! 3]
   \<and> (appears_ci ''new YORK'' (home_team (example_events ! 0))
        \<or> appears_ci ''new YORK'' (away_team (example_events ! 0)))
   \<and> filter_events example_env (Some ''CUBS'') example_events = []
   \<and> fetch_player_props example_env ''baseball_mlb'' None (Some ''CUBS'')
        (Response 200 ''OK'' (Json example_events)) example_net
      = (Inr (''Player Props Report - BASEBALL_MLB\<newline>''
              @ ''Generated: 11/3/2026, 9:00:00 AM\<newline>''
              @ ''Markets: batter_home_runs, pitcher_strikeouts\<newline>''
              @ ''Team Filter: CUBS\<newline>''
              @ ''\<newline>''
              @ ''No games found for team '' @ [CHR 0x22] @ ''CUBS'' @ [CHR 0x22]
              @ '' today.\<newline>''),
         [events_url ''baseball_mlb''])"
proof -
  note inst = team_filter_lowered_substring
    [of example_env "''new YORK''" example_events "example_events ! 0" 200 "Some ''CUBS''"
        "''baseball_mlb''" None "''OK''" example_net]
  have a: "ascii ''new YORK''" "ascii (home_team (example_events ! 0))"
    "ascii (away_team (example_events ! 0))"
    by (simp_all add: example_events_def)
  have o: "ok 200" by (simp add: ok_def)
  have m: "matches_team example_env ''new YORK'' (example_events ! 0)"
    by (simp add: example_events_def matches_team_def str_defs)
  have f: "filter_events example_env (Some ''new YORK'') example_events
             = [example_events ! 0, example_events ! 3]"
    by (simp add: filter_events_def truthy_def example_events_def matches_team_def str_defs)
  have c: "filter_events example_env (Some ''CUBS'') example_events = []"
    by (simp add: filter_events_def truthy_def example_events_def matches_team_def str_defs)
  have h: "props_header example_env ''baseball_mlb'' (resolve_markets ''baseball_mlb'' None)
             (Some ''CUBS'') @ no_games_line (Some ''CUBS'')
           = ''Player Props Report - BASEBALL_MLB\<newline>''
              @ ''Generated: 11/3/2026, 9:00:00 AM\<newline>''
              @ ''Markets: batter_home_runs, pitcher_strikeouts\<newline>''
              @ ''Team Filter: CUBS\<newline>''
              @ ''\<newline>''
              @ ''No games found for team '' @ [CHR 0x22] @ ''CUBS'' @ [CHR 0x22]
              @ '' today.\<newline>''"
    by (simp add: props_header_def no_games_line_def resolve_markets_def truthy_def
          example_env_def str_defs)
  from inst a m have d: "appears_ci ''new YORK'' (home_team (example_events ! 0))
        \<or> appears_ci ''new YORK'' (away_team (example_events ! 0))"
    by blast
  from inst o c have r: "fetch_player_props example_env ''baseball_mlb'' None (Some ''CUBS'')
        (Response 200 ''OK'' (Json example_events)) example_net
      = (Inr (props_header example_env ''baseball_mlb'' (resolve_markets ''baseball_mlb'' None)
             (Some ''CUBS'') @ no_games_line (Some ''CUBS'')), [events_url ''baseball_mlb''])"
    by blast
  from a o f d c r h show ?thesis by simp
qed

text \<open>
  C7. Every invocation issues at most three per-event calls; when the list of events was
  fetched, the per-event calls are those of the first three retained events, in the
  provider's order, so their number is the minimum of three and the number retained.
\<close>

theorem at_most_three_per_event_calls:
  "length (per_event_calls (snd (fetch_player_props e sport mkts_arg tf r net))) \<le> 3
   \<and> (r = Response status statusText (Json events) \<and> ok status \<longrightarrow>
        snd (fetch_player_props e sport mkts_arg tf r net)
          = events_url sport
            # map (props_url sport (resolve_markets sport mkts_arg)) (take 3 (filter_events e tf events))
        \<and> length (per_event_calls (snd (fetch_player_props e sport mkts_arg tf r net)))
          = min 3 (length (filter_events e tf events)))"
proof (intro conjI impI)
  show "length (per_event_calls (snd (fetch_player_props e sport mkts_arg tf r net))) \<le> 3"
  proof (cases r)
    case (Rejected msg)
    then show ?thesis by (simp add: fetch_player_props_failed per_event_calls_def)
  next
    case (Response st stt b)
    show ?thesis
    proof (cases "ok st")
      case False
      with Response show ?thesis by (simp add: fetch_player_props_failed per_event_calls_def)
    next
      case True
      show ?thesis
      proof (cases b)
        case (BadJson msg)
        with Response True show ?thesis
          by (simp add: fetch_player_props_failed per_event_calls_def)
      next
        case (Json evs)
        with Response True show ?thesis
          by (simp add: fetch_player_props_ok per_event_calls_def)
      qed
    qed
  qed
next
  assume a: "r = Response status statusText (Json events) \<and> ok status"
  then show "snd (fetch_player_props e sport mkts_arg tf r net)
          = events_url sport
            # map (props_url sport (resolve_markets sport mkts_arg)) (take 3 (filter_events e tf events))"
    by (simp add: fetch_player_props_ok)
  from a show "length (per_event_calls (snd (fetch_player_props e sport mkts_arg tf r net)))
          = min 3 (length (filter_events e tf events))"
    by (simp add: fetch_player_props_ok per_event_calls_def min.commute)
qed

theorem at_most_three_per_event_calls_witness:
  "ok 200
   \<and> length (filter_events example_env None example_events) = 4
   \<and> snd (fetch_player_props example_env ''baseball_mlb'' (Some [''batter_hits'']) None
            (Response 200 ''OK'' (Json example_events)) example_net)
      = [''https://api.the-odds-api.com/v4/sports/baseball_mlb/events?apiKey=e2589acbc9f5ed09664e15a3fd90682d'',
         ''https://api.the-odds-api.com/v4/sports/baseball_mlb/events/e1/odds?apiKey=e2589acbc9f5ed09664e15a3fd90682d&regions=us&markets=batter_hits&bookmakers=draftkings'',
         ''https://api.the-odds-api.com/v4/sports/baseball_mlb/events/e2/odds?apiKey=e2589acbc9f5ed09664e15a3fd90682d&regions=us&markets=batter_hits&bookmakers=draftkings'',
         ''https://api.the-odds-api.com/v4/sports/baseball_mlb/events/e3/odds?apiKey=e2589acbc9f5ed09664e15a3fd90682d&regions=us&markets=batter_hits&bookmakers=draftkings'']"
  using at_most_three_per_event_calls
    [of example_env "''baseball_mlb''" "Some [''batter_hits'']" None
        "Response 200 ''OK'' (Json example_events)" example_net 200 "''OK''" example_events]
  by (simp add: ok_def filter_events_def truthy_def example_events_def resolve_markets_def
        events_url_def props_url_def baseUrl_def apiKey_def)

text \<open>
  C8. When the list of events was fetched and some event is retained, the tool returns a
  report: the header, the count, and one block per processed event in order, each made
  from that event and the answer to its own call. The block of a response that is not ok
  or of a thrown error is the title of the event and an error line naming the status or
  the message; the block of any other event is rendered from the data fetched for it.
\<close>

theorem failed_event_is_rendered_inline:
  "(ok status \<and> filter_events e tf events \<noteq> [] \<longrightarrow>
      fst (fetch_player_props e sport mkts_arg tf (Response status statusText (Json events)) net)
        = Inr (props_header e sport (resolve_markets sport mkts_arg) tf
               @ ''Processing '' @ show_nat (length (take 3 (filter_events e tf events)))
               @ '' games:\<newline>\<newline>''
               @ concat (map (\<lambda>i. event_block e (take 3 (filter_events e tf events) ! i)
                                 (net (Suc i) (props_url sport (resolve_markets sport mkts_arg)
                                                (take 3 (filter_events e tf events) ! i))))
                           [0..<length (take 3 (filter_events e tf events))])))
   \<and> (\<not> ok st \<longrightarrow>
        event_block e ev (Response st stt b)
          = event_title ev @ ''Error: Unable to fetch props ('' @ show_nat st @ '')\<newline>\<newline>'')
   \<and> event_block e ev (Rejected msg) = event_title ev @ ''Error: '' @ msg @ ''\<newline>\<newline>''
   \<and> (ok st \<longrightarrow>
        event_block e ev (Response st stt (BadJson msg))
          = event_title ev @ ''Error: '' @ msg @ ''\<newline>\<newline>'')
   \<and> (ok st \<longrightarrow>
        event_block e ev (Response st stt (Json propsData))
          = event_title ev @ ''Starts: '' @ date_str e (commence_time ev) @ ''\<newline>''
            @ props_sections e propsData @ ''\<newline>'')"
  by (simp add: fetch_player_props_ok event_block_def)

theorem failed_event_is_rendered_inline_witness:
  "ok 200 \<and> \<not> ok 404
   \<and> filter_events example_env (Some ''new YORK'') example_events = [example_events ! 0, example_events ! 3]
   \<and> fst (fetch_player_props example_env ''baseball_mlb'' None (Some ''new YORK'')
            (Response 200 ''OK'' (Json example_events)) example_net)
      = Inr (''Player Props Report - BASEBALL_MLB\<newline>''
             @ ''Generated: 11/3/2026, 9:00:00 AM\<newline>''
             @ ''Markets: batter_home_runs, pitcher_strikeouts\<newline>''
             @ ''Team Filter: new YORK\<newline>''
             @ ''\<newline>''
             @ ''Processing 2 games:\<newline>\<newline>''
             @ ''--- Boston Red Sox @ New York Yankees ---\<newline>''
             @ ''Error: Unable to fetch props (404)\<newline>\<newline>''
             @ ''--- New York Mets @ Toronto Blue Jays ---\<newline>''
             @ ''Starts: 2026-11-04T00:07:00Z\<newline>''
             @ ''\<newline>BATTER HOME RUNS:\<newline>''
             @ ''  Bo Bichette: Over 0.5 (2)\<newline>''
             @ ''\<newline>'')"
proof -
  have f: "filter_events example_env (Some ''new YORK'') example_events = [example_events ! 0, example_events ! 3]"
    by (simp add: filter_events_def truthy_def example_events_def matches_team_def str_defs)
  have b1: "event_block example_env (example_events ! 0) (example_net (Suc 0) u)
              = ''--- Boston Red Sox @ New York Yankees ---\<newline>''
                @ ''Error: Unable to fetch props (404)\<newline>\<newline>''" for u
    by (simp add: event_block_def example_net_def ok_def event_title_def example_events_def
          show_nat.simps str_defs)
  have b2: "event_block example_env (example_events ! 3) (example_net (Suc (Suc 0)) u)
              = ''--- New York Mets @ Toronto Blue Jays ---\<newline>''
                @ ''Starts: 2026-11-04T00:07:00Z\<newline>''
                @ ''\<newline>BATTER HOME RUNS:\<newline>''
                @ ''  Bo Bichette: Over 0.5 (2)\<newline>''
                @ ''\<newline>''" for u
    by (simp add: event_block_def example_net_def ok_def event_title_def example_events_def
          example_env_def example_props_def props_sections_def props_market_def
          props_outcome_def truthy_def str_defs)
  have h: "props_header example_env ''baseball_mlb'' (resolve_markets ''baseball_mlb'' None) (Some ''new YORK'')
             = ''Player Props Report - BASEBALL_MLB\<newline>''
             @ ''Generated: 11/3/2026, 9:00:00 AM\<newline>''
             @ ''Markets: batter_home_runs, pitcher_strikeouts\<newline>''
             @ ''Team Filter: new YORK\<newline>''
             @ ''\<newline>''"
    by (simp add: props_header_def resolve_markets_def truthy_def example_env_def str_defs)
  have n: "show_nat (Suc (Suc 0)) = ''2''" by (simp add: show_nat.simps digit_char_def)
  have u: "[0..<2] = [0, 1]" by (simp add: upt_rec)
  show ?thesis
    using failed_event_is_rendered_inline
      [of 200 example_env "Some ''new YORK''" example_events "''baseball_mlb''" None "''OK''"
          example_net]
    by (simp add: f b1 b2 h n u ok_def)
qed

section \<open>Responses that are not ok\<close>

text \<open>
  C5, as stated, fails: the only retained event's odds call is answered with status 404,
  and the tool returns a report, with the status in an inline error block.
\<close>

theorem per_event_404_gives_report:
  "\<not> ok 404
   \<and> example_net 1 (props_url ''baseball_mlb'' [''batter_home_runs'', ''pitcher_strikeouts''] (example_events ! 0))
       = Response 404 ''Not Found'' (BadJson ''Unexpected end of JSON input'')
   \<and> fetch_player_props example_env ''baseball_mlb'' None (Some ''red sox'')
        (Response 200 ''OK'' (Json example_events)) example_net
      = (Inr (''Player Props Report - BASEBALL_MLB\<newline>''
             @ ''Generated: 11/3/2026, 9:00:00 AM\<newline>''
             @ ''Markets: batter_home_runs, pitcher_strikeouts\<newline>''
             @ ''Team Filter: red sox\<newline>''
             @ ''\<newline>''
             @ ''Processing 1 games:\<newline>\<newline>''
             @ ''--- Boston Red Sox @ New York Yankees ---\<newline>''
             @ ''Error: Unable to fetch props (404)\<newline>\<newline>''),
         [events_url ''baseball_mlb'',
          props_url ''baseball_mlb'' [''batter_home_runs'', ''pitcher_strikeouts''] (example_events ! 0)])"
proof -
  have f: "filter_events example_env (Some ''red sox'') example_events = [example_events ! 0]"
    by (simp add: filter_events_def truthy_def example_events_def matches_team_def str_defs)
  have b: "event_block example_env (example_events ! 0) (example_net (Suc 0) u)
              = ''--- Boston Red Sox @ New York Yankees ---\<newline>''
                @ ''Error: Unable to fetch props (404)\<newline>\<newline>''" for u
    by (simp add: event_block_def example_net_def ok_def event_title_def example_events_def
          show_nat.simps str_defs)
  have h: "props_header example_env ''baseball_mlb'' [''batter_home_runs'', ''pitcher_strikeouts''] (Some ''red sox'')
             = ''Player Props Report - BASEBALL_MLB\<newline>''
             @ ''Generated: 11/3/2026, 9:00:00 AM\<newline>''
             @ ''Markets: batter_home_runs, pitcher_strikeouts\<newline>''
             @ ''Team Filter: red sox\<newline>''
             @ ''\<newline>''"
    by (simp add: props_header_def truthy_def example_env_def str_defs)
  have n: "show_nat (Suc 0) = ''1''" by (simp add: show_nat.simps digit_char_def)
  have r: "resolve_markets ''baseball_mlb'' None = [''batter_home_runs'', ''pitcher_strikeouts'']"
    by (simp add: resolve_markets_def)
  have o: "ok 200" "\<not> ok 404" by (simp_all add: ok_def)
  have c: "example_net 1 u = Response 404 ''Not Found'' (BadJson ''Unexpected end of JSON input'')" for u
    by (simp add: example_net_def)
  have m: "fetch_player_props example_env ''baseball_mlb'' None (Some ''red sox'')
        (Response 200 ''OK'' (Json example_events)) example_net
      = (Inr (''Player Props Report - BASEBALL_MLB\<newline>''
             @ ''Generated: 11/3/2026, 9:00:00 AM\<newline>''
             @ ''Markets: batter_home_runs, pitcher_strikeouts\<newline>''
             @ ''Team Filter: red sox\<newline>''
             @ ''\<newline>''
             @ ''Processing 1 games:\<newline>\<newline>''
             @ ''--- Boston Red Sox @ New York Yankees ---\<newline>''
             @ ''Error: Unable to fetch props (404)\<newline>\<newline>''),
         [events_url ''baseball_mlb'',
          props_url ''baseball_mlb'' [''batter_home_runs'', ''pitcher_strikeouts''] (example_events ! 0)])"
    by (simp add: fetch_player_props_ok o f b h n r)
  from o(2) c m show ?thesis by blast
qed

text \<open>
  C5, amended. A response that is not ok to the sport-wide odds call or to the call for the
  list of events ends the tool call with an error whose message carries the status. A
  per-event response that is not ok becomes an inline error block carrying the status, and
  the tool call returns a report whenever the list of events was fetched.
\<close>

theorem non_2xx_responses:
  "(\<not> ok status \<longrightarrow>
      fetch_sports_odds e sport mkts_arg regions_arg (Response status statusText b)
        = Inl (''Failed to execute fetch_sports_odds: API call failed: ''
               @ show_nat status @ '' '' @ statusText))
   \<and> (\<not> ok status \<longrightarrow>
        fetch_player_props e sport mkts_arg tf (Response status statusText b') net
          = (Inl (''Failed to fetch player props: Events API call failed: '' @ show_nat status),
             [events_url sport]))
   \<and> (\<not> ok status \<longrightarrow>
        event_block e ev (Response status statusText b'')
          = event_title ev @ ''Error: Unable to fetch props ('' @ show_nat status @ '')\<newline>\<newline>'')
   \<and> (ok status' \<longrightarrow>
        (\<exists>text. fst (fetch_player_props e sport mkts_arg tf
                        (Response status' statusText' (Json events)) net) = Inr text))"
  by (simp add: fetch_sports_odds_def odds_try_def fetch_player_props_failed event_block_def
        fetch_player_props_ok)

theorem non_2xx_responses_witness:
  "\<not> ok 503 \<and> ok 200
   \<and> fetch_sports_odds example_env ''icehockey_nhl'' None None
        (Response 503 ''Service Unavailable'' (Json NotArray))
       = Inl ''Failed to execute fetch_sports_odds: API call failed: 503 Service Unavailable''
   \<and> fetch_player_props example_env ''baseball_mlb'' None None
        (Response 503 ''Service Unavailable'' (Json [])) example_net
       = (Inl ''Failed to fetch player props: Events API call failed: 503'',
          [events_url ''baseball_mlb''])
   \<and> event_block example_env (example_events ! 1)
        (Response 503 ''Service Unavailable'' (Json example_props))
       = ''--- San Francisco Giants @ Los Angeles Dodgers ---\<newline>''
         @ ''Error: Unable to fetch props (503)\<newline>\<newline>''"
  using non_2xx_responses
    [of 503 example_env "''icehockey_nhl''" None None "''Service Unavailable''" "Json NotArray"]
    non_2xx_responses
    [of 503 example_env "''baseball_mlb''" None None "''Service Unavailable''" "Json NotArray"
        None "Json []" example_net "example_events ! 1" "Json example_props" 200]
  by (simp add: ok_def show_nat.simps digit_char_def event_title_def example_events_def)

section \<open>Session routing\<close>

text \<open>\<open>run\<close> handles the events one after the other.\<close>

lemma run_snoc: "run (evs @ [ev]) = step (run evs) ev"
  by (simp add: run_def)

lemma run_Nil: "run [] = initial"
  by (simp add: run_def)

lemma lookup_Transport: "lookup s sid = Transport t \<longleftrightarrow> transports s sid = Some t"
  by (simp add: lookup_def split: option.splits)

lemma lookup_Absent:
  "lookup s sid = Absent \<longleftrightarrow> transports s sid = None \<and> sid \<notin> set object_prototype_members"
  by (simp add: lookup_def split: option.splits)

lemma proto_is_member: "''__proto__'' \<in> set object_prototype_members"
  by (simp add: object_prototype_members_def)

text \<open>
  The state after a request: an assignment when a transport is constructed, no change
  otherwise.
\<close>

lemma post_state_new:
  assumes "(if truthy (session_header req) then lookup s (the (session_header req)) else Absent)
             = Absent \<or> is_initialize req"
  shows "state (mcpPostHandler s req k)
     = (assign s (if truthy (session_header req) then the (session_header req)
                  else randomUUID k) (constructed s))
         \<lparr>constructed := Suc (constructed s),
          sessionId_of := (sessionId_of s)
            (constructed s \<mapsto> (if truthy (session_header req) then the (session_header req)
                                   else randomUUID k))\<rparr>"
  using assms by (auto simp add: mcpPostHandler_def handle_def Let_def split: settled.splits)

lemma post_state_old:
  assumes "\<not> ((if truthy (session_header req) then lookup s (the (session_header req)) else Absent)
             = Absent \<or> is_initialize req)"
  shows "state (mcpPostHandler s req k) = s"
  using assms
  by (auto simp add: mcpPostHandler_def handle_def Let_def split: settled.splits slot.splits)

text \<open>
  Every entry of the table holds a transport that was constructed for the identifier of the
  entry and that has not been closed; the three facts below are kept by every event.
\<close>

lemma step_preserves_table:
  assumes A: "\<And>sid t. transports s sid = Some t \<Longrightarrow>
                sessionId_of s t = Some sid \<and> t < constructed s \<and> t \<notin> closed s"
      and B: "\<And>t sid. sessionId_of s t = Some sid \<Longrightarrow> t < constructed s"
      and C: "\<And>t. t \<in> closed s \<Longrightarrow> t < constructed s"
  shows "(\<forall>sid t. transports (step s ev) sid = Some t \<longrightarrow>
            sessionId_of (step s ev) t = Some sid \<and> t < constructed (step s ev)
            \<and> t \<notin> closed (step s ev))
       \<and> (\<forall>t sid. sessionId_of (step s ev) t = Some sid \<longrightarrow> t < constructed (step s ev))
       \<and> (\<forall>t \<in> closed (step s ev). t < constructed (step s ev))"
proof (cases ev)
  case (Post req k)
  define sid0 where
    "sid0 = (if truthy (session_header req) then the (session_header req) else randomUUID k)"
  show ?thesis
  proof (cases "(if truthy (session_header req) then lookup s (the (session_header req))
                 else Absent) = Absent \<or> is_initialize req")
    case False
    then have "step s ev = s" using Post post_state_old [of req s k] by simp
    then show ?thesis using A B C by auto
  next
    case True
    then have st: "step s ev = (assign s sid0 (constructed s))
               \<lparr>constructed := Suc (constructed s),
                sessionId_of := (sessionId_of s)(constructed s \<mapsto> sid0)\<rparr>"
      using Post post_state_new [of req s k] by (simp add: sid0_def)
    have tr: "transports (step s ev) sid = Some t \<Longrightarrow>
                (sid = sid0 \<and> t = constructed s) \<or> transports s sid = Some t" for sid t
      using st by (auto simp add: assign_def split: if_splits)
    have cl: "closed (step s ev) = closed s" using st by (simp add: assign_def)
    have co: "constructed (step s ev) = Suc (constructed s)" using st by simp
    have so: "sessionId_of (step s ev) = (sessionId_of s)(constructed s \<mapsto> sid0)"
      using st by simp
    have fresh: "constructed s \<notin> closed s" using C by blast
    have 1: "sessionId_of (step s ev) t = Some sid \<and> t < constructed (step s ev)
            \<and> t \<notin> closed (step s ev)" if "transports (step s ev) sid = Some t" for sid t
    proof -
      from tr [OF that] show ?thesis
      proof
        assume "sid = sid0 \<and> t = constructed s"
        with fresh show ?thesis by (simp add: cl co so)
      next
        assume "transports s sid = Some t"
        from A [OF this] show ?thesis by (auto simp add: cl co so)
      qed
    qed
    have 2: "t < constructed (step s ev)" if "sessionId_of (step s ev) t = Some sid" for sid t
    proof (cases "t = constructed s")
      case True
      then show ?thesis by (simp add: co)
    next
      case False
      with that have "sessionId_of s t = Some sid" by (simp add: so)
      from B [OF this] show ?thesis by (simp add: co)
    qed
    have 3: "t < constructed (step s ev)" if "t \<in> closed (step s ev)" for t
      using that C [of t] by (simp add: cl co)
    from 1 2 3 show ?thesis by blast
  qed
next
  case (Close c)
  show ?thesis
  proof (cases "sessionId_of s c")
    case None
    then have "step s ev = s" using Close by (simp add: onclose_def)
    then show ?thesis using A B C by auto
  next
    case (Some sid0)
    then have st: "step s ev
        = s\<lparr>transports := (transports s)(sid0 := None), closed := insert c (closed s)\<rparr>"
      using Close by (simp add: onclose_def)
    have 1: "sessionId_of (step s ev) t = Some sid \<and> t < constructed (step s ev)
            \<and> t \<notin> closed (step s ev)" if "transports (step s ev) sid = Some t" for sid t
    proof -
      from that st have ne: "sid \<noteq> sid0" and tr: "transports s sid = Some t"
        by (auto split: if_splits)
      from A [OF tr] have a: "sessionId_of s t = Some sid" "t < constructed s" "t \<notin> closed s"
        by simp_all
      from a(1) Some ne have "t \<noteq> c" by auto
      with a st show ?thesis by simp
    qed
    have 2: "t < constructed (step s ev)" if "sessionId_of (step s ev) t = Some sid" for sid t
      using that st B [of t sid] by simp
    have 3: "t < constructed (step s ev)" if "t \<in> closed (step s ev)" for t
      using that st C [of t] B [OF Some] by auto
    from 1 2 3 show ?thesis by blast
  qed
qed

lemma table_invariant:
  "(\<forall>sid t. transports (run evs) sid = Some t \<longrightarrow>
        sessionId_of (run evs) t = Some sid \<and> t < constructed (run evs) \<and> t \<notin> closed (run evs))
   \<and> (\<forall>t sid. sessionId_of (run evs) t = Some sid \<longrightarrow> t < constructed (run evs))
   \<and> (\<forall>t \<in> closed (run evs). t < constructed (run evs))"
proof (induction evs rule: rev_induct)
  case Nil
  then show ?case by (simp add: run_Nil initial_def)
next
  case (snoc ev evs)
  then show ?case
    using step_preserves_table [of "run evs" ev] by (simp add: run_snoc)
qed

text \<open>A request with a registered identifier that is not an initialization message.\<close>

lemma known_session_routed:
  assumes "session_header req = Some sid" "sid \<noteq> []" "\<not> is_initialize req"
    "lookup s sid = Transport t"
  shows "mcpPostHandler s req k = handle k s t False"
  using assms by (simp add: mcpPostHandler_def truthy_def)

text \<open>A request that makes the handler construct a transport.\<close>

lemma new_transport:
  assumes "(if truthy (session_header req) then lookup s (the (session_header req)) else Absent)
             = Absent \<or> is_initialize req"
  shows "created (mcpPostHandler s req k)
     \<and> transport (mcpPostHandler s req k) = Some (constructed s)
     \<and> dispatched (mcpPostHandler s req k) = (connect k = Fulfilled)
     \<and> response (mcpPostHandler s req k)
         = (case connect k of
              Threw msg \<Rightarrow> InternalServerError msg
            | Fulfilled \<Rightarrow>
                (case handleRequest k of
                   Fulfilled \<Rightarrow> FromTransport (constructed s)
                 | Threw msg \<Rightarrow>
                     if headersSent k then Partial (constructed s) else InternalServerError msg))"
  using assms by (auto simp add: mcpPostHandler_def handle_def Let_def split: settled.splits)

text \<open>A request closes nothing and numbers no transport anew.\<close>

lemma post_keeps_live:
  assumes "live s t"
  shows "live (state (mcpPostHandler s req k)) t"
proof (cases "(if truthy (session_header req) then lookup s (the (session_header req))
               else Absent) = Absent \<or> is_initialize req")
  case True
  from post_state_new [OF this] assms show ?thesis
    by (simp add: live_def assign_def)
next
  case False
  from post_state_old [OF this] assms show ?thesis by simp
qed

text \<open>
  After a request with an identifier that names no inherited member, the table holds the
  transport of that request under the identifier.
\<close>

lemma post_registers_transport:
  assumes "session_header req = Some sid" "sid \<noteq> []" "sid \<notin> set object_prototype_members"
  shows "\<exists>t. transport (mcpPostHandler s req k) = Some t
             \<and> lookup (state (mcpPostHandler s req k)) sid = Transport t"
proof (cases "lookup s sid = Absent \<or> is_initialize req")
  case True
  then have c: "(if truthy (session_header req) then lookup s (the (session_header req))
                 else Absent) = Absent \<or> is_initialize req"
    using assms by (simp add: truthy_def)
  from assms(3) proto_is_member have np: "sid \<noteq> ''__proto__''" by blast
  from post_state_new [OF c, of k] assms np
  have "transports (state (mcpPostHandler s req k)) sid = Some (constructed s)"
    by (simp add: truthy_def assign_def)
  with new_transport [OF c, of k] show ?thesis by (simp add: lookup_Transport)
next
  case False
  then have "lookup s sid \<noteq> Absent" "\<not> is_initialize req" by simp_all
  moreover from assms(3) have "lookup s sid \<noteq> Inherited"
    by (simp add: lookup_def split: option.splits)
  ultimately obtain t where t: "lookup s sid = Transport t" by (cases "lookup s sid") simp_all
  from known_session_routed [OF assms(1,2) \<open>\<not> is_initialize req\<close> t, of k] t
  show ?thesis by (simp add: handle_def)
qed

text \<open>An event that concerns another identifier leaves the entry of this one as it is.\<close>

lemma other_sessions_untouched:
  assumes "case ev of
             Post req k \<Rightarrow>
               (if truthy (session_header req) then the (session_header req) else randomUUID k) \<noteq> sid
           | Close c \<Rightarrow> sessionId_of s c \<noteq> Some sid"
  shows "transports (step s ev) sid = transports s sid"
proof (cases ev)
  case (Post req k)
  with assms show ?thesis
    by (cases "(if truthy (session_header req) then lookup s (the (session_header req))
                else Absent) = Absent \<or> is_initialize req")
       (simp_all add: post_state_new post_state_old assign_def)
next
  case (Close c)
  with assms show ?thesis
    by (auto simp add: onclose_def split: option.splits)
qed

text \<open>
  C1, as stated, fails: a request that is not an initialization message and carries the
  identifier \<open>abc\<close>, which the empty table does not hold, makes the handler construct a
  transport, enter it in the table under \<open>abc\<close> and pass the request to it.
\<close>

theorem unknown_session_creates_transport:
  "session_header example_call = Some ''abc'' \<and> \<not> is_initialize example_call
   \<and> lookup initial ''abc'' = Absent
   \<and> created (mcpPostHandler initial example_call example_sdk)
   \<and> dispatched (mcpPostHandler initial example_call example_sdk)
   \<and> transports (state (mcpPostHandler initial example_call example_sdk)) ''abc'' = Some 0
   \<and> constructed (state (mcpPostHandler initial example_call example_sdk)) = 1
   \<and> response (mcpPostHandler initial example_call example_sdk) = FromTransport 0"
  by (simp add: mcpPostHandler_def handle_def example_call_def example_sdk_def initial_def
        truthy_def Let_def lookup_def assign_def object_prototype_members_def)

text \<open>
  C1, amended. Let the table have the prototype of an object literal. For a request that
  carries an identifier for which the lookup in the table finds nothing (it is neither
  registered nor the name of an inherited member), initialization message or not, the
  handler constructs a new transport, enters it in the table under that identifier and,
  unless \<open>server.connect\<close> throws, passes the request to it; the reply is the one of that
  transport, or the handler's envelope of status 500 when a library call throws. For a
  request that is not an initialization message and carries the name of an inherited
  member that is not registered, the handler constructs nothing, calls no transport and
  replies with the envelope of status 500. No reply of the handler says that the session
  was not found.
\<close>

theorem unknown_session_gets_new_transport:
  "(prototype s = None \<and> session_header req = Some sid \<and> sid \<noteq> [] \<and> lookup s sid = Absent \<longrightarrow>
      created (mcpPostHandler s req k)
      \<and> transport (mcpPostHandler s req k) = Some (constructed s)
      \<and> dispatched (mcpPostHandler s req k) = (connect k = Fulfilled)
      \<and> transports (state (mcpPostHandler s req k)) = (transports s)(sid \<mapsto> constructed s)
      \<and> prototype (state (mcpPostHandler s req k)) = None
      \<and> constructed (state (mcpPostHandler s req k)) = Suc (constructed s)
      \<and> sessionId_of (state (mcpPostHandler s req k)) (constructed s) = Some sid
      \<and> response (mcpPostHandler s req k)
          = (case connect k of
               Threw msg \<Rightarrow> InternalServerError msg
             | Fulfilled \<Rightarrow>
                 (case handleRequest k of
                    Fulfilled \<Rightarrow> FromTransport (constructed s)
                  | Threw msg \<Rightarrow>
                      if headersSent k then Partial (constructed s)
                      else InternalServerError msg)))
   \<and> (prototype s = None \<and> session_header req = Some sid \<and> lookup s sid = Inherited
        \<and> \<not> is_initialize req \<longrightarrow>
        \<not> created (mcpPostHandler s req k)
        \<and> \<not> dispatched (mcpPostHandler s req k)
        \<and> transport (mcpPostHandler s req k) = None
        \<and> state (mcpPostHandler s req k) = s
        \<and> response (mcpPostHandler s req k) = InternalServerError (typeError k))"
proof (intro conjI impI)
  assume a: "prototype s = None \<and> session_header req = Some sid \<and> sid \<noteq> [] \<and> lookup s sid = Absent"
  then have c: "(if truthy (session_header req) then lookup s (the (session_header req))
                 else Absent) = Absent \<or> is_initialize req"
    by (simp add: truthy_def)
  from a proto_is_member have np: "sid \<noteq> ''__proto__''" by (auto simp add: lookup_Absent)
  note n = new_transport [OF c, of k]
  note st = post_state_new [OF c, of k]
  from n show "created (mcpPostHandler s req k)" by simp
  from n show "transport (mcpPostHandler s req k) = Some (constructed s)" by simp
  from n show "dispatched (mcpPostHandler s req k) = (connect k = Fulfilled)" by simp
  from n show "response (mcpPostHandler s req k)
          = (case connect k of
               Threw msg \<Rightarrow> InternalServerError msg
             | Fulfilled \<Rightarrow>
                 (case handleRequest k of
                    Fulfilled \<Rightarrow> FromTransport (constructed s)
                  | Threw msg \<Rightarrow>
                      if headersSent k then Partial (constructed s)
                      else InternalServerError msg))" by simp
  from st a np show "transports (state (mcpPostHandler s req k)) = (transports s)(sid \<mapsto> constructed s)"
    by (simp add: truthy_def assign_def)
  from st a np show "prototype (state (mcpPostHandler s req k)) = None"
    by (simp add: truthy_def assign_def)
  from st show "constructed (state (mcpPostHandler s req k)) = Suc (constructed s)"
    by simp
  from st a show "sessionId_of (state (mcpPostHandler s req k)) (constructed s) = Some sid"
    by (simp add: truthy_def)
next
  assume a: "prototype s = None \<and> session_header req = Some sid \<and> lookup s sid = Inherited
        \<and> \<not> is_initialize req"
  then have ne: "sid \<noteq> []"
    by (auto simp add: lookup_def object_prototype_members_def split: option.splits if_splits)
  with a have r: "mcpPostHandler s req k
      = \<lparr>state = s, transport = None, created = False, dispatched = False,
         response = InternalServerError (typeError k)\<rparr>"
    by (simp add: mcpPostHandler_def truthy_def)
  from r show "\<not> created (mcpPostHandler s req k)" by simp
  from r show "\<not> dispatched (mcpPostHandler s req k)" by simp
  from r show "transport (mcpPostHandler s req k) = None" by simp
  from r show "state (mcpPostHandler s req k) = s" by simp
  from r show "response (mcpPostHandler s req k) = InternalServerError (typeError k)" by simp
qed

theorem unknown_session_gets_new_transport_witness:
  "prototype initial = None \<and> lookup initial ''abc'' = Absent
   \<and> lookup initial ''constructor'' = Inherited
   \<and> created (mcpPostHandler initial example_call example_sdk)
   \<and> transport (mcpPostHandler initial example_call example_sdk) = Some 0
   \<and> dispatched (mcpPostHandler initial example_call example_sdk)
   \<and> transports (state (mcpPostHandler initial example_call example_sdk)) ''abc'' = Some 0
   \<and> response (mcpPostHandler initial example_call example_sdk) = FromTransport 0
   \<and> \<not> created (mcpPostHandler initial example_inherited example_sdk)
   \<and> state (mcpPostHandler initial example_inherited example_sdk) = initial
   \<and> response (mcpPostHandler initial example_inherited example_sdk)
       = InternalServerError ''transport.handleRequest is not a function''"
proof -
  have l: "prototype initial = None" "lookup initial ''abc'' = Absent"
    "lookup initial ''constructor'' = Inherited"
    by (simp_all add: initial_def lookup_def object_prototype_members_def)
  have h: "session_header example_call = Some ''abc''" "''abc'' \<noteq> []"
    "session_header example_inherited = Some ''constructor''"
    "\<not> is_initialize example_inherited"
    by (simp_all add: example_call_def example_inherited_def)
  have k: "connect example_sdk = Fulfilled" "handleRequest example_sdk = Fulfilled"
    "typeError example_sdk = ''transport.handleRequest is not a function''"
    "constructed initial = 0" "transports initial = Map.empty"
    by (simp_all add: example_sdk_def initial_def)
  show ?thesis
    using unknown_session_gets_new_transport [of initial example_call "''abc''" example_sdk]
      unknown_session_gets_new_transport
        [of initial example_inherited "''constructor''" example_sdk]
    by (simp add: l h k)
qed

text \<open>
  C2, as stated, fails: two initialization requests with the identifier \<open>abc\<close> are passed
  to two transports, and both are live after the second request.
\<close>

theorem reinitialization_makes_second_transport:
  "session_header example_init = Some ''abc''
   \<and> transport (mcpPostHandler initial example_init example_sdk) = Some 0
   \<and> dispatched (mcpPostHandler initial example_init example_sdk)
   \<and> transport (mcpPostHandler (state (mcpPostHandler initial example_init example_sdk))
                  example_init example_sdk) = Some 1
   \<and> dispatched (mcpPostHandler (state (mcpPostHandler initial example_init example_sdk))
                  example_init example_sdk)
   \<and> live (state (mcpPostHandler (state (mcpPostHandler initial example_init example_sdk))
                  example_init example_sdk)) 0
   \<and> live (state (mcpPostHandler (state (mcpPostHandler initial example_init example_sdk))
                  example_init example_sdk)) 1"
  by (simp add: mcpPostHandler_def handle_def example_init_def example_sdk_def initial_def
        truthy_def live_def Let_def lookup_def assign_def object_prototype_members_def)

text \<open>
  C2, amended. Let the table have the prototype of an object literal. In every state that
  requests and closures can reach, the entry of an identifier holds one transport, which
  is live and was constructed for that identifier. A request that is not an
  initialization message and carries a registered identifier is dispatched to the
  transport of its entry (\<open>handleRequest\<close> is called on it), constructs nothing and leaves
  the state as it is. Of two successive requests with the same identifier, which names no
  inherited member, the second not an initialization message, the second is dispatched to
  the transport that the first was routed to; the first was itself dispatched to it unless
  it constructed that transport and \<open>server.connect\<close> threw. An initialization request
  always constructs a new transport and is dispatched to it unless \<open>server.connect\<close>
  throws. A transport that is live before a request is live after it.
\<close>

theorem session_routing:
  "(prototype (run evs) = None \<and> lookup (run evs) sid = Transport t \<longrightarrow>
      sessionId_of (run evs) t = Some sid \<and> live (run evs) t)
   \<and> (prototype s = None \<and> session_header req = Some sid \<and> sid \<noteq> [] \<and> \<not> is_initialize req
        \<and> lookup s sid = Transport t' \<longrightarrow>
        transport (mcpPostHandler s req k) = Some t'
        \<and> dispatched (mcpPostHandler s req k)
        \<and> \<not> created (mcpPostHandler s req k)
        \<and> state (mcpPostHandler s req k) = s
        \<and> response (mcpPostHandler s req k)
            = (case handleRequest k of
                 Fulfilled \<Rightarrow> FromTransport t'
               | Threw msg \<Rightarrow> if headersSent k then Partial t' else InternalServerError msg))
   \<and> (prototype s = None \<and> session_header req1 = Some sid \<and> session_header req2 = Some sid
        \<and> sid \<noteq> [] \<and> sid \<notin> set object_prototype_members \<and> \<not> is_initialize req2 \<longrightarrow>
        transport (mcpPostHandler (state (mcpPostHandler s req1 k1)) req2 k2)
          = transport (mcpPostHandler s req1 k1)
        \<and> transport (mcpPostHandler s req1 k1) \<noteq> None
        \<and> dispatched (mcpPostHandler (state (mcpPostHandler s req1 k1)) req2 k2)
        \<and> \<not> created (mcpPostHandler (state (mcpPostHandler s req1 k1)) req2 k2)
        \<and> dispatched (mcpPostHandler s req1 k1)
            = (\<not> created (mcpPostHandler s req1 k1) \<or> connect k1 = Fulfilled))
   \<and> (prototype s = None \<and> is_initialize req \<longrightarrow>
        created (mcpPostHandler s req k)
        \<and> transport (mcpPostHandler s req k) = Some (constructed s)
        \<and> dispatched (mcpPostHandler s req k) = (connect k = Fulfilled))
   \<and> (live s t'' \<longrightarrow> live (state (mcpPostHandler s req k)) t'')"
proof (intro conjI impI)
  assume "prototype (run evs) = None \<and> lookup (run evs) sid = Transport t"
  then have "transports (run evs) sid = Some t" by (simp add: lookup_Transport)
  then show "sessionId_of (run evs) t = Some sid" "live (run evs) t"
    using table_invariant [of evs] by (auto simp add: live_def)
next
  assume "prototype s = None \<and> session_header req = Some sid \<and> sid \<noteq> [] \<and> \<not> is_initialize req
        \<and> lookup s sid = Transport t'"
  then have r: "mcpPostHandler s req k = handle k s t' False"
    using known_session_routed [of req sid s t' k] by simp
  from r show "transport (mcpPostHandler s req k) = Some t'" by (simp add: handle_def)
  from r show "dispatched (mcpPostHandler s req k)" by (simp add: handle_def)
  from r show "\<not> created (mcpPostHandler s req k)" by (simp add: handle_def)
  from r show "state (mcpPostHandler s req k) = s" by (simp add: handle_def)
  from r show "response (mcpPostHandler s req k)
            = (case handleRequest k of
                 Fulfilled \<Rightarrow> FromTransport t'
               | Threw msg \<Rightarrow> if headersSent k then Partial t' else InternalServerError msg)"
    by (simp add: handle_def)
next
  assume a: "prototype s = None \<and> session_header req1 = Some sid \<and> session_header req2 = Some sid
        \<and> sid \<noteq> [] \<and> sid \<notin> set object_prototype_members \<and> \<not> is_initialize req2"
  then obtain t where t: "transport (mcpPostHandler s req1 k1) = Some t"
      "lookup (state (mcpPostHandler s req1 k1)) sid = Transport t"
    using post_registers_transport [of req1 sid s k1] by auto
  from a t have r: "mcpPostHandler (state (mcpPostHandler s req1 k1)) req2 k2
      = handle k2 (state (mcpPostHandler s req1 k1)) t False"
    using known_session_routed [of req2 sid "state (mcpPostHandler s req1 k1)" t k2] by simp
  from r t show "transport (mcpPostHandler (state (mcpPostHandler s req1 k1)) req2 k2)
          = transport (mcpPostHandler s req1 k1)" by (simp add: handle_def)
  from t show "transport (mcpPostHandler s req1 k1) \<noteq> None" by simp
  from r show "dispatched (mcpPostHandler (state (mcpPostHandler s req1 k1)) req2 k2)"
    by (simp add: handle_def)
  from r show "\<not> created (mcpPostHandler (state (mcpPostHandler s req1 k1)) req2 k2)"
    by (simp add: handle_def)
  show "dispatched (mcpPostHandler s req1 k1)
            = (\<not> created (mcpPostHandler s req1 k1) \<or> connect k1 = Fulfilled)"
  proof (cases "lookup s sid = Absent \<or> is_initialize req1")
    case True
    with a have "(if truthy (session_header req1) then lookup s (the (session_header req1))
                 else Absent) = Absent \<or> is_initialize req1"
      by (simp add: truthy_def)
    from new_transport [OF this, of k1] show ?thesis by simp
  next
    case False
    then have "lookup s sid \<noteq> Absent" "\<not> is_initialize req1" by simp_all
    moreover from a have "lookup s sid \<noteq> Inherited"
      by (simp add: lookup_def split: option.splits)
    ultimately obtain u where "lookup s sid = Transport u"
      by (cases "lookup s sid") simp_all
    with a \<open>\<not> is_initialize req1\<close> have "mcpPostHandler s req1 k1 = handle k1 s u False"
      using known_session_routed [of req1 sid s u k1] by simp
    then show ?thesis by (simp add: handle_def)
  qed
next
  assume "prototype s = None \<and> is_initialize req"
  then have "(if truthy (session_header req) then lookup s (the (session_header req))
                 else Absent) = Absent \<or> is_initialize req" by simp
  from new_transport [OF this, of k]
  show "created (mcpPostHandler s req k)"
    "transport (mcpPostHandler s req k) = Some (constructed s)"
    "dispatched (mcpPostHandler s req k) = (connect k = Fulfilled)"
    by simp_all
next
  assume "live s t''"
  then show "live (state (mcpPostHandler s req k)) t''" by (rule post_keeps_live)
qed

theorem session_routing_witness:
  "prototype (run [Post example_init example_sdk]) = None
   \<and> lookup (run [Post example_init example_sdk]) ''abc'' = Transport 0
   \<and> live (run [Post example_init example_sdk]) 0
   \<and> transport (mcpPostHandler initial example_init example_sdk) = Some 0
   \<and> dispatched (mcpPostHandler initial example_init example_sdk)
   \<and> transport (mcpPostHandler (state (mcpPostHandler initial example_init example_sdk))
                  example_call example_sdk) = Some 0
   \<and> dispatched (mcpPostHandler (state (mcpPostHandler initial example_init example_sdk))
                  example_call example_sdk)"
proof -
  have l: "prototype (run [Post example_init example_sdk]) = None"
    "lookup (run [Post example_init example_sdk]) ''abc'' = Transport 0"
    by (simp_all add: run_def mcpPostHandler_def handle_def example_init_def example_sdk_def
          initial_def truthy_def Let_def lookup_def assign_def object_prototype_members_def)
  have h: "session_header example_init = Some ''abc''" "session_header example_call = Some ''abc''"
    "''abc'' \<noteq> []" "\<not> is_initialize example_call" "is_initialize example_init"
    "''abc'' \<notin> set object_prototype_members" "prototype initial = None"
    "connect example_sdk = Fulfilled" "constructed initial = 0"
    by (simp_all add: example_init_def example_call_def object_prototype_members_def
          initial_def example_sdk_def)
  show ?thesis
    using session_routing [of "[Post example_init example_sdk]" "''abc''" 0 initial example_init
        0 example_sdk example_init example_call example_sdk example_sdk 0] l h
    by simp
qed

section \<open>The key of the provider at startup\<close>

text \<open>
  C9, as stated, fails: with an environment that holds no variable at all, and so no key,
  startup reaches the listening state.
\<close>

theorem startup_without_key:
  "Map.empty ''ODDS_API_KEY'' = (None :: string option)
   \<and> startup Map.empty True = Listening (Inr 10000) initial"
  by (simp add: startup_def listen_port_def truthy_def)

text \<open>
  C9, amended. Startup does not look for the key: whenever the port can be bound the
  server listens, and no variable of the environment other than \<open>PORT\<close> changes what
  startup does. The key is never absent, since every URL of the provider carries the
  string literal of the code.
\<close>

theorem startup_ignores_key:
  "startup penv True = Listening (listen_port penv) initial
   \<and> (v \<noteq> ''PORT'' \<longrightarrow> startup (penv(v := x)) bound = startup penv bound)
   \<and> odds_url sport mkts regions
       = ''https://api.the-odds-api.com/v4/sports/'' @ sport
         @ ''/odds/?apiKey=e2589acbc9f5ed09664e15a3fd90682d&regions='' @ regions
         @ ''&markets='' @ join '','' mkts @ ''&oddsFormat=decimal&dateFormat=iso''
   \<and> events_url sport
       = ''https://api.the-odds-api.com/v4/sports/'' @ sport
         @ ''/events?apiKey=e2589acbc9f5ed09664e15a3fd90682d''
   \<and> props_url sport mkts ev
       = ''https://api.the-odds-api.com/v4/sports/'' @ sport @ ''/events/'' @ event_id ev
         @ ''/odds?apiKey=e2589acbc9f5ed09664e15a3fd90682d&regions=us&markets='' @ join '','' mkts
         @ ''&bookmakers=draftkings''"
  by (simp add: startup_def listen_port_def odds_url_def events_url_def props_url_def
        baseUrl_def apiKey_def)

theorem startup_ignores_key_witness:
  "''ODDS_API_KEY'' \<noteq> ''PORT''
   \<and> startup (Map.empty(''ODDS_API_KEY'' := None)) True = Listening (Inr 10000) initial
   \<and> startup (Map.empty(''ODDS_API_KEY'' \<mapsto> ''k'')) True = Listening (Inr 10000) initial"
  using startup_ignores_key [of Map.empty "''ODDS_API_KEY''" None True]
    startup_ignores_key [of Map.empty "''ODDS_API_KEY''" "Some ''k''" True]
  by (simp add: startup_def listen_port_def truthy_def)

end
